theory Spec2Isabelle
  imports Main "HOL-Library.Sublist"
begin

section \<open>The outside world of the cleaner scripts\<close>

text \<open>
  The scripts \<^verbatim>\<open>delete_bedrock_kbs.py\<close> (v1), \<^verbatim>\<open>delete_bedrock_kbs_v2.py\<close> (v2) and
  \<^verbatim>\<open>kb_test.py\<close> are sequences of calls to a cloud client, of sleeps, prints and one
  prompt. The model threads a trace of these events through every function: an event is
  appended when the source performs the call, and the answer of the outside world (the
  value returned or the exception raised) is a function of the trace so far, whose last
  event is the call being answered. Any deterministic mock of the client is such a
  function.

  Exceptions are values; a function returns \<open>(Inl e, t)\<close> where the source lets \<open>e\<close>
  escape and \<open>(Inr v, t)\<close> where it returns \<open>v\<close>. \<open>sys.exit(n)\<close> raises \<open>SystemExit n\<close>.
  Only client calls and the prompt raise; sleeps and prints do not.

  A printed f-string is an event \<open>Print template args\<close>: the text with each
  interpolated value replaced by \<open>{}\<close>, without its leading newlines and pictograph, and
  the interpolated values in order. Wall-clock readings (\<open>time.time()\<close>,
  \<open>time.strftime\<close>) are not carried. Sleeps are in milliseconds.
\<close>

datatype exn =
    is_ClientError: ClientError (err_code: string) (err_message: string)
      (err_operation: string) (err_retry_info: string)
  | NoCredentialsError
  | is_TimeoutError: TimeoutError
  | KeyboardInterrupt
  | ValueError
  | ZeroDivisionError
  | OtherException string
  | SystemExit int

text \<open>\<open>except Exception\<close> catches everything but \<open>KeyboardInterrupt\<close> and \<open>SystemExit\<close>.\<close>

fun is_Exception :: "exn \<Rightarrow> bool" where
  "is_Exception KeyboardInterrupt = False"
| "is_Exception (SystemExit n) = False"
| "is_Exception e = True"

text \<open>
  \<open>str(e)\<close> of a botocore \<open>ClientError\<close>: the library's message template, which ends
  with the error message.
\<close>

definition client_error_str :: "exn \<Rightarrow> string" where
  "client_error_str e =
     ''An error occurred ('' @ err_code e @ '') when calling the '' @ err_operation e
       @ '' operation'' @ err_retry_info e @ '': '' @ err_message e"

text \<open>
  \<open>str.lower()\<close> on the ASCII letters. A string is its UTF-8 bytes; no character
  outside ASCII lowers to a letter of \<open>vector store\<close>, so the substring test of the
  source is the one below.
\<close>

definition lower_char :: "char \<Rightarrow> char" where
  "lower_char c =
     (let n = (of_char c :: nat) in if 65 \<le> n \<and> n \<le> 90 then char_of (n + 32) else c)"

definition lower :: "string \<Rightarrow> string" where
  "lower s = map lower_char s"

record kb_summary =
  kb_id :: string
  kb_name :: string
  kb_status :: string

record ds_summary =
  ds_id :: string
  ds_name :: string

record data_source =
  src_name :: string
  src_configuration :: string

datatype api_call =
    CreateClient
  | ListKnowledgeBasesMax1
  | ListKnowledgeBases
  | ListDataSources string
  | GetDataSource string string
  | UpdateDataSource string string string string string
  | DeleteDataSource string string
  | DeleteKnowledgeBase string
  | GetKnowledgeBase string
  | GetAgentActionGroup string string
  | GetAgent string

datatype arg = S string | N int | E exn

datatype event =
    Call api_call
  | Sleep nat
  | Print string "arg list"
  | Input string

type_synonym trace = "event list"

text \<open>
  The answers of the world. A paginator yields its pages and then either stops or
  raises; \<open>boto3_client\<close> and the calls that return nothing answer \<open>None\<close> on success.
\<close>

record world =
  boto3_client :: "trace \<Rightarrow> exn option"
  api_list_knowledge_bases :: "trace \<Rightarrow> exn option"
  paginate_knowledge_bases :: "trace \<Rightarrow> kb_summary list list \<times> exn option"
  paginate_data_sources :: "trace \<Rightarrow> ds_summary list list \<times> exn option"
  api_get_data_source :: "trace \<Rightarrow> exn + data_source"
  api_update_data_source :: "trace \<Rightarrow> exn option"
  api_delete_data_source :: "trace \<Rightarrow> exn option"
  api_delete_knowledge_base :: "trace \<Rightarrow> exn option"
  user_input :: "trace \<Rightarrow> exn + string"

text \<open>
  A paginator is asked with the trace that ends with its first request. It makes one
  request for each page received and one more for a request that raises, and at least one.
\<close>

definition page_requests :: "api_call \<Rightarrow> 'a list \<times> exn option \<Rightarrow> trace" where
  "page_requests c r =
     Call c # replicate (length (fst r) + (case snd r of None \<Rightarrow> 0 | Some e \<Rightarrow> 1) - 1) (Call c)"

text \<open>The calls that change a resource.\<close>

fun mutating :: "event \<Rightarrow> bool" where
  "mutating (Call (UpdateDataSource kb ds n c p)) = True"
| "mutating (Call (DeleteDataSource kb ds)) = True"
| "mutating (Call (DeleteKnowledgeBase kb)) = True"
| "mutating e = False"

section \<open>The cleaner, version 1 (\<^verbatim>\<open>delete_bedrock_kbs.py\<close>)\<close>

record cleaner =
  region :: string
  dry_run :: bool

text \<open>\<open>BedrockKBCleaner.__init__\<close>\<close>

definition init :: "world \<Rightarrow> string \<Rightarrow> bool \<Rightarrow> trace \<Rightarrow> (exn + cleaner) \<times> trace" where
  "init w rg dr t =
     (let t1 = t @ [Call CreateClient] in
      case boto3_client w t1 of
        None \<Rightarrow> (Inr \<lparr>region = rg, dry_run = dr\<rparr>, t1)
      | Some e \<Rightarrow>
          if e = NoCredentialsError then
            (Inl (SystemExit 1),
             t1 @ [Print ''AWS credentials not found. Please configure your AWS credentials.'' [],
                   Print ''You can use: aws configure, environment variables, or IAM roles'' []])
          else (Inl e, t1))"

text \<open>\<open>BedrockKBCleaner.list_knowledge_bases\<close>\<close>

definition kb_line :: "nat \<times> kb_summary \<Rightarrow> event" where
  "kb_line p = Print ''  {}. {} (ID: {}) - Status: {}''
     [N (int (fst p)), S (kb_name (snd p)), S (kb_id (snd p)), S (kb_status (snd p))]"

definition list_knowledge_bases ::
  "world \<Rightarrow> cleaner \<Rightarrow> trace \<Rightarrow> (exn + kb_summary list) \<times> trace" where
  "list_knowledge_bases w self t =
     (let t1 = t @ [Print ''Listing Knowledge Bases in region {}...'' [S (region self)]];
          r = paginate_knowledge_bases w (t1 @ [Call ListKnowledgeBases]);
          t2 = t1 @ page_requests ListKnowledgeBases r
      in case snd r of
           Some e \<Rightarrow>
             if is_ClientError e then
               (Inr [], t2 @ [Print ''Error listing knowledge bases: {}'' [E e]])
             else (Inl e, t2)
         | None \<Rightarrow>
             (let knowledge_bases = concat (fst r) in
              (Inr knowledge_bases,
               t2 @ [Print ''Found {} Knowledge Bases'' [N (int (length knowledge_bases))]]
                  @ map kb_line (enumerate 1 knowledge_bases))))"

text \<open>\<open>BedrockKBCleaner.list_data_sources\<close>\<close>

definition list_data_sources ::
  "world \<Rightarrow> string \<Rightarrow> trace \<Rightarrow> (exn + ds_summary list) \<times> trace" where
  "list_data_sources w kb t =
     (let r = paginate_data_sources w (t @ [Call (ListDataSources kb)]);
          t1 = t @ page_requests (ListDataSources kb) r
      in case snd r of
           Some e \<Rightarrow>
             if is_ClientError e then
               (Inr [], t1 @ [Print ''Error listing data sources for KB {}: {}'' [S kb, E e]])
             else (Inl e, t1)
         | None \<Rightarrow> (Inr (concat (fst r)), t1))"

text \<open>\<open>BedrockKBCleaner.update_data_source_deletion_policy\<close>\<close>

definition update_data_source_deletion_policy ::
  "world \<Rightarrow> string \<Rightarrow> string \<Rightarrow> trace \<Rightarrow> (exn + bool) \<times> trace" where
  "update_data_source_deletion_policy w kb ds t =
     (let failed = (\<lambda>e. Print ''    Failed to update data source {} deletion policy: {}'' [S ds, E e]);
          t1 = t @ [Call (GetDataSource kb ds)]
      in case api_get_data_source w t1 of
           Inl e \<Rightarrow> if is_ClientError e then (Inr False, t1 @ [failed e]) else (Inl e, t1)
         | Inr src \<Rightarrow>
             (let t2 = t1 @ [Call (UpdateDataSource kb ds (src_name src) (src_configuration src)
                                     ''RETAIN'')]
              in case api_update_data_source w t2 of
                   Some e \<Rightarrow> if is_ClientError e then (Inr False, t2 @ [failed e]) else (Inl e, t2)
                 | None \<Rightarrow>
                     (Inr True,
                      t2 @ [Print ''    Updated data source {} deletion policy to RETAIN'' [S ds]])))"

text \<open>
  \<open>BedrockKBCleaner.delete_data_source\<close>: the loop \<open>for attempt in range(max_retries)\<close>
  over the attempts that are left; falling out of the loop returns \<open>False\<close>.
\<close>

fun delete_data_source_attempts ::
  "world \<Rightarrow> string \<Rightarrow> string \<Rightarrow> int \<Rightarrow> int list \<Rightarrow> trace \<Rightarrow> (exn + bool) \<times> trace" where
  "delete_data_source_attempts w kb ds max_retries [] t = (Inr False, t)"
| "delete_data_source_attempts w kb ds max_retries (attempt # rest) t =
     (let t1 = t @ [Call (DeleteDataSource kb ds)] in
      case api_delete_data_source w t1 of
        None \<Rightarrow> (Inr True, t1 @ [Print ''    Deleted data source {}'' [S ds]])
      | Some e \<Rightarrow>
          if is_ClientError e then
            if sublist ''vector store'' (lower (err_message e)) \<and> attempt < max_retries - 1 then
              (case update_data_source_deletion_policy w kb ds
                      (t1 @ [Print ''    Vector store error on attempt {}, updating deletion policy...''
                               [N (attempt + 1)]]) of
                 (Inl e', t2) \<Rightarrow> (Inl e', t2)
               | (Inr updated, t2) \<Rightarrow>
                   delete_data_source_attempts w kb ds max_retries rest (t2 @ [Sleep 2000]))
            else
              (Inr False,
               t1 @ [Print ''    Failed to delete data source {}: {}'' [S ds, S (err_message e)]])
          else (Inl e, t1))"

definition delete_data_source ::
  "world \<Rightarrow> string \<Rightarrow> string \<Rightarrow> int \<Rightarrow> trace \<Rightarrow> (exn + bool) \<times> trace" where
  "delete_data_source w kb ds max_retries t =
     delete_data_source_attempts w kb ds max_retries [0..max_retries - 1] t"

text \<open>
  \<open>BedrockKBCleaner.delete_knowledge_base\<close>, in three parts: the loop over the data
  sources, the loop over the attempts to delete the knowledge base, and the body.
\<close>

fun delete_each_data_source ::
  "world \<Rightarrow> string \<Rightarrow> ds_summary list \<Rightarrow> trace \<Rightarrow> (exn + unit) \<times> trace" where
  "delete_each_data_source w kb [] t = (Inr (), t)"
| "delete_each_data_source w kb (ds # rest) t =
     (case delete_data_source w kb (ds_id ds) 3
             (t @ [Print ''    Deleting data source: {} (ID: {})'' [S (ds_name ds), S (ds_id ds)]]) of
        (Inl e, t1) \<Rightarrow> (Inl e, t1)
      | (Inr deleted, t1) \<Rightarrow>
          delete_each_data_source w kb rest
            (if \<not> deleted
             then t1 @ [Print ''    Continuing despite data source deletion failure...'' []]
             else t1))"

fun delete_knowledge_base_attempts ::
  "world \<Rightarrow> string \<Rightarrow> string \<Rightarrow> int \<Rightarrow> int list \<Rightarrow> trace \<Rightarrow> (exn + bool) \<times> trace" where
  "delete_knowledge_base_attempts w kb name max_retries [] t = (Inr False, t)"
| "delete_knowledge_base_attempts w kb name max_retries (attempt # rest) t =
     (let t1 = t @ [Call (DeleteKnowledgeBase kb)] in
      case api_delete_knowledge_base w t1 of
        None \<Rightarrow> (Inr True, t1 @ [Print ''Successfully deleted Knowledge Base: {}'' [S name]])
      | Some e \<Rightarrow>
          if is_ClientError e then
            if attempt < max_retries - 1 then
              delete_knowledge_base_attempts w kb name max_retries rest
                (t1 @ [Print ''Deletion attempt {} failed, retrying in 10 seconds...'' [N (attempt + 1)],
                       Print ''    Error: {}'' [S (err_message e)],
                       Sleep 10000])
            else
              (Inr False,
               t1 @ [Print ''Failed to delete Knowledge Base {} after {} attempts'' [S name, N max_retries],
                     Print ''    Final error: {}'' [S (err_message e)]])
          else (Inl e, t1))"

definition delete_knowledge_base ::
  "world \<Rightarrow> cleaner \<Rightarrow> string \<Rightarrow> string \<Rightarrow> int \<Rightarrow> trace \<Rightarrow> (exn + bool) \<times> trace" where
  "delete_knowledge_base w self kb name max_retries t =
     (if dry_run self then
        (Inr True, t @ [Print ''[DRY RUN] Would delete KB: {} (ID: {})'' [S name, S kb]])
      else
        case list_data_sources w kb
               (t @ [Print ''Deleting Knowledge Base: {} (ID: {})'' [S name, S kb]]) of
          (Inl e, t1) \<Rightarrow> (Inl e, t1)
        | (Inr data_sources, t1) \<Rightarrow>
            (case (if data_sources \<noteq> [] then
                     delete_each_data_source w kb data_sources
                       (t1 @ [Print ''  Found {} data sources to delete first''
                                [N (int (length data_sources))]])
                   else (Inr (), t1)) of
               (Inl e, t2) \<Rightarrow> (Inl e, t2)
             | (Inr u, t2) \<Rightarrow>
                 delete_knowledge_base_attempts w kb name max_retries [0..max_retries - 1]
                   (if data_sources \<noteq> [] then
                      t2 @ [Print ''    Waiting for data source deletions to complete...'' [],
                            Sleep 5000]
                    else t2)))"

text \<open>
  \<open>BedrockKBCleaner.delete_all_knowledge_bases\<close>: the loop over
  \<open>enumerate(knowledge_bases, 1)\<close> with the two counters, the summary, and the body.
\<close>

fun delete_all_loop ::
  "world \<Rightarrow> cleaner \<Rightarrow> nat \<Rightarrow> (nat \<times> kb_summary) list \<Rightarrow> int \<Rightarrow> int \<Rightarrow> trace
     \<Rightarrow> (exn + int \<times> int) \<times> trace" where
  "delete_all_loop w self len [] success_count failure_count t =
     (Inr (success_count, failure_count), t)"
| "delete_all_loop w self len ((i, kb) # rest) success_count failure_count t =
     (case delete_knowledge_base w self (kb_id kb) (kb_name kb) 3
             (t @ [Print ''[{}/{}] Processing: {}'' [N (int i), N (int len), S (kb_name kb)]]) of
        (Inl e, t1) \<Rightarrow> (Inl e, t1)
      | (Inr deleted, t1) \<Rightarrow>
          delete_all_loop w self len rest
            (if deleted then success_count + 1 else success_count)
            (if deleted then failure_count else failure_count + 1)
            (if \<not> dry_run self \<and> i < len then t1 @ [Sleep 2000] else t1))"

definition failure_hints :: "trace" where
  "failure_hints =
     [Print ''For failed deletions, you might need to:'' [],
      Print ''  1. Check vector store permissions in your AWS account'' [],
      Print ''  2. Manually delete vector store resources (OpenSearch, Pinecone, etc.)'' [],
      Print ''  3. Contact AWS Support if issues persist'' []]"

definition delete_all_confirmed ::
  "world \<Rightarrow> cleaner \<Rightarrow> kb_summary list \<Rightarrow> trace \<Rightarrow> (exn + unit) \<times> trace" where
  "delete_all_confirmed w self knowledge_bases t =
     (let len = length knowledge_bases in
      case delete_all_loop w self len (enumerate 1 knowledge_bases) 0 0
             (t @ [Print ''Starting deletion of {} Knowledge Bases...'' [N (int len)]]) of
        (Inl e, t1) \<Rightarrow> (Inl e, t1)
      | (Inr (success_count, failure_count), t1) \<Rightarrow>
          (Inr (),
           t1 @ [Print ''Deletion Summary:'' [],
                 Print ''  Successful: {}'' [N success_count],
                 Print ''  Failed: {}'' [N failure_count]]
              @ (if failure_count > 0 then failure_hints else [])))"

definition delete_all_knowledge_bases ::
  "world \<Rightarrow> cleaner \<Rightarrow> bool \<Rightarrow> trace \<Rightarrow> (exn + unit) \<times> trace" where
  "delete_all_knowledge_bases w self confirm t =
     (case list_knowledge_bases w self t of
        (Inl e, t1) \<Rightarrow> (Inl e, t1)
      | (Inr knowledge_bases, t1) \<Rightarrow>
          if knowledge_bases = [] then
            (Inr (), t1 @ [Print ''No Knowledge Bases found to delete.'' []])
          else if \<not> dry_run self \<and> \<not> confirm then
            (let t2 = t1 @ [Print ''WARNING: This will delete ALL {} Knowledge Bases!''
                              [N (int (length knowledge_bases))],
                            Print ''This action cannot be undone.'' [],
                            Input ''Are you sure you want to continue? (type 'DELETE' to confirm): '']
             in case user_input w t2 of
                  Inl e \<Rightarrow> (Inl e, t2)
                | Inr response \<Rightarrow>
                    if response \<noteq> ''DELETE'' then (Inr (), t2 @ [Print ''Operation cancelled.'' []])
                    else delete_all_confirmed w self knowledge_bases t2)
          else delete_all_confirmed w self knowledge_bases t1)"

text \<open>\<open>main\<close> of version 1, on the parsed command line.\<close>

record args =
  arg_region :: string
  arg_dry_run :: bool
  arg_confirm :: bool
  arg_list_regions :: bool

definition main :: "world \<Rightarrow> args \<Rightarrow> trace \<Rightarrow> (exn + unit) \<times> trace" where
  "main w a t =
     (if arg_list_regions a then
        (Inr (),
         t @ [Print ''Common AWS regions with Bedrock support:'' []]
           @ map (\<lambda>r. Print ''  - {}'' [S r])
               [''us-east-1'', ''us-west-2'', ''eu-west-1'', ''eu-central-1'',
                ''ap-southeast-1'', ''ap-northeast-1'', ''ca-central-1''])
      else
        case init w (arg_region a) (arg_dry_run a)
               (t @ [Print ''AWS Bedrock Knowledge Base Cleaner'' [],
                     Print (replicate 50 (CHR ''='')) []]) of
          (Inl e, t1) \<Rightarrow> (Inl e, t1)
        | (Inr self, t1) \<Rightarrow> delete_all_knowledge_bases w self (arg_confirm a) t1)"

section \<open>The cleaner, version 2 (\<^verbatim>\<open>delete_bedrock_kbs_v2.py\<close>)\<close>

text \<open>
  \<open>TimeoutHandler\<close> arms an alarm whose handler raises \<open>TimeoutError\<close> inside the
  \<open>with\<close> block: here, a client call that answers \<open>TimeoutError\<close>.
\<close>

record cleaner_v2 = cleaner +
  debug :: bool

text \<open>\<open>BedrockKBCleanerV2.debug_print\<close>; the time stamp is left out.\<close>

definition debug_print :: "cleaner_v2 \<Rightarrow> string \<Rightarrow> arg list \<Rightarrow> trace \<Rightarrow> trace" where
  "debug_print self message as t =
     (if debug self then t @ [Print (''[DEBUG] '' @ message) as] else t)"

text \<open>\<open>BedrockKBCleanerV2.__init__\<close>\<close>

definition init_failed :: "exn \<Rightarrow> trace \<Rightarrow> (exn + cleaner_v2) \<times> trace" where
  "init_failed e t =
     (if e = NoCredentialsError then
        (Inl (SystemExit 1),
         t @ [Print ''AWS credentials not found. Please configure your AWS credentials.'' [],
              Print ''You can use: aws configure, environment variables, or IAM roles'' []])
      else if is_ClientError e then
        (Inl (SystemExit 1),
         t @ [Print ''AWS client error: {}'' [E e],
              Print ''Check your permissions and region settings.'' []])
      else (Inl e, t))"

definition init_v2 ::
  "world \<Rightarrow> string \<Rightarrow> bool \<Rightarrow> bool \<Rightarrow> trace \<Rightarrow> (exn + cleaner_v2) \<times> trace" where
  "init_v2 w rg dr dbg t =
     (let t1 = t @ [Call CreateClient] in
      case boto3_client w t1 of
        Some e \<Rightarrow> init_failed e t1
      | None \<Rightarrow>
          (let t2 = t1 @ [Call ListKnowledgeBasesMax1] in
           case api_list_knowledge_bases w t2 of
             Some e \<Rightarrow> init_failed e t2
           | None \<Rightarrow> (Inr \<lparr>region = rg, dry_run = dr, debug = dbg\<rparr>, t2)))"

text \<open>
  \<open>BedrockKBCleanerV2.list_knowledge_bases\<close>. The loop over the pages requests every
  page but the first (requested when the iteration starts), and sleeps after every page
  but the first. An exception in the loop is caught by the inner \<open>except Exception\<close>.
\<close>

fun kb_pages_v2 :: "cleaner_v2 \<Rightarrow> (nat \<times> kb_summary list) list \<Rightarrow> trace \<Rightarrow> trace" where
  "kb_pages_v2 self [] t = t"
| "kb_pages_v2 self ((page_num, page) # rest) t =
     kb_pages_v2 self rest
       (let t1 = debug_print self ''Processing page {}'' [N (int page_num)]
                   (if page_num > 1 then t @ [Call ListKnowledgeBases] else t)
        in if page_num > 1 then t1 @ [Sleep 500] else t1)"

definition list_knowledge_bases_v2 ::
  "world \<Rightarrow> cleaner_v2 \<Rightarrow> trace \<Rightarrow> (exn + kb_summary list) \<times> trace" where
  "list_knowledge_bases_v2 w self t =
     (let t1 = t @ [Print ''Listing Knowledge Bases in region {}...'' [S (region self)],
                    Call ListKnowledgeBases];
          r = paginate_knowledge_bases w t1;
          t2 = kb_pages_v2 self (enumerate 1 (fst r)) t1
      in case snd r of
           Some e \<Rightarrow>
             (let t3 = (if fst r \<noteq> [] then t2 @ [Call ListKnowledgeBases] else t2) in
              if is_Exception e then
                (Inr [], t3 @ [Print ''Error during pagination: {}'' [E e]])
              else (Inl e, t3))
         | None \<Rightarrow>
             (let knowledge_bases = concat (fst r) in
              (Inr knowledge_bases,
               t2 @ [Print ''Found {} Knowledge Bases'' [N (int (length knowledge_bases))]]
                  @ map kb_line (enumerate 1 knowledge_bases))))"

text \<open>\<open>BedrockKBCleanerV2.list_data_sources_with_timeout\<close>\<close>

definition list_data_sources_with_timeout ::
  "world \<Rightarrow> cleaner_v2 \<Rightarrow> string \<Rightarrow> trace \<Rightarrow> (exn + ds_summary list) \<times> trace" where
  "list_data_sources_with_timeout w self kb t =
     (let t1 = debug_print self ''Listing data sources for KB {}'' [S kb] t;
          r = paginate_data_sources w (t1 @ [Call (ListDataSources kb)]);
          t2 = t1 @ page_requests (ListDataSources kb) r
      in case snd r of
           Some e \<Rightarrow>
             if is_TimeoutError e then
               (Inr [], t2 @ [Print ''    Timeout listing data sources for KB {}'' [S kb]])
             else if is_ClientError e then
               (Inr [], t2 @ [Print ''    Error listing data sources for KB {}: {}'' [S kb, E e]])
             else (Inl e, t2)
         | None \<Rightarrow>
             (let data_sources = concat (fst r) in
              (Inr data_sources,
               debug_print self ''Found {} data sources for KB {}''
                 [N (int (length data_sources)), S kb] t2)))"

text \<open>\<open>BedrockKBCleanerV2.update_data_source_deletion_policy_with_timeout\<close>\<close>

definition update_failed :: "string \<Rightarrow> exn \<Rightarrow> trace \<Rightarrow> (exn + bool) \<times> trace" where
  "update_failed ds e t =
     (if is_TimeoutError e then
        (Inr False, t @ [Print ''    Timeout updating data source {} deletion policy'' [S ds]])
      else if is_ClientError e then
        (Inr False,
         t @ [Print ''    Failed to update data source {} deletion policy: {}'' [S ds, E e]])
      else (Inl e, t))"

definition update_data_source_deletion_policy_with_timeout ::
  "world \<Rightarrow> cleaner_v2 \<Rightarrow> string \<Rightarrow> string \<Rightarrow> trace \<Rightarrow> (exn + bool) \<times> trace" where
  "update_data_source_deletion_policy_with_timeout w self kb ds t =
     (let t1 = debug_print self ''Updating deletion policy for data source {}'' [S ds] t
                 @ [Call (GetDataSource kb ds)]
      in case api_get_data_source w t1 of
           Inl e \<Rightarrow> update_failed ds e t1
         | Inr src \<Rightarrow>
             (let t2 = t1 @ [Call (UpdateDataSource kb ds (src_name src) (src_configuration src)
                                     ''RETAIN'')]
              in case api_update_data_source w t2 of
                   Some e \<Rightarrow> update_failed ds e t2
                 | None \<Rightarrow>
                     (Inr True,
                      t2 @ [Print ''    Updated data source {} deletion policy to RETAIN'' [S ds]])))"

text \<open>\<open>BedrockKBCleanerV2.delete_data_source_with_timeout\<close>\<close>

fun delete_data_source_attempts_v2 ::
  "world \<Rightarrow> cleaner_v2 \<Rightarrow> string \<Rightarrow> string \<Rightarrow> int \<Rightarrow> int list \<Rightarrow> trace
     \<Rightarrow> (exn + bool) \<times> trace" where
  "delete_data_source_attempts_v2 w self kb ds max_retries [] t = (Inr False, t)"
| "delete_data_source_attempts_v2 w self kb ds max_retries (attempt # rest) t =
     (let t1 = debug_print self ''Attempting to delete data source {}, attempt {}''
                 [S ds, N (attempt + 1)] t
                 @ [Call (DeleteDataSource kb ds)]
      in case api_delete_data_source w t1 of
        None \<Rightarrow> (Inr True, t1 @ [Print ''    Deleted data source {}'' [S ds]])
      | Some e \<Rightarrow>
          if is_TimeoutError e then
            if attempt < max_retries - 1 then
              delete_data_source_attempts_v2 w self kb ds max_retries rest
                (t1 @ [Print ''    Timeout on attempt {}, retrying...'' [N (attempt + 1)],
                       Sleep 5000])
            else
              (Inr False,
               t1 @ [Print ''    Timeout deleting data source {} after all attempts'' [S ds]])
          else if is_ClientError e then
            (let error_message = client_error_str e in
             if sublist ''vector store'' (lower error_message) \<and> attempt < max_retries - 1 then
               (case update_data_source_deletion_policy_with_timeout w self kb ds
                       (t1 @ [Print ''    Vector store error on attempt {}, updating deletion policy...''
                                [N (attempt + 1)]]) of
                  (Inl e', t2) \<Rightarrow> (Inl e', t2)
                | (Inr updated, t2) \<Rightarrow>
                    delete_data_source_attempts_v2 w self kb ds max_retries rest
                      (t2 @ [Sleep 3000]))
             else
               (Inr False,
                t1 @ [Print ''    Failed to delete data source {}: {}'' [S ds, S error_message]]))
          else (Inl e, t1))"

definition delete_data_source_with_timeout ::
  "world \<Rightarrow> cleaner_v2 \<Rightarrow> string \<Rightarrow> string \<Rightarrow> int \<Rightarrow> trace \<Rightarrow> (exn + bool) \<times> trace" where
  "delete_data_source_with_timeout w self kb ds max_retries t =
     delete_data_source_attempts_v2 w self kb ds max_retries [0..max_retries - 1] t"

text \<open>\<open>BedrockKBCleanerV2.delete_knowledge_base_with_timeout\<close>\<close>

fun delete_each_data_source_v2 ::
  "world \<Rightarrow> cleaner_v2 \<Rightarrow> string \<Rightarrow> ds_summary list \<Rightarrow> trace \<Rightarrow> (exn + unit) \<times> trace" where
  "delete_each_data_source_v2 w self kb [] t = (Inr (), t)"
| "delete_each_data_source_v2 w self kb (ds # rest) t =
     (case delete_data_source_with_timeout w self kb (ds_id ds) 3
             (t @ [Print ''    Deleting data source: {} (ID: {})'' [S (ds_name ds), S (ds_id ds)]]) of
        (Inl e, t1) \<Rightarrow> (Inl e, t1)
      | (Inr deleted, t1) \<Rightarrow>
          delete_each_data_source_v2 w self kb rest
            (if \<not> deleted
             then t1 @ [Print ''    Continuing despite data source deletion failure...'' []]
             else t1))"

fun delete_knowledge_base_attempts_v2 ::
  "world \<Rightarrow> cleaner_v2 \<Rightarrow> string \<Rightarrow> string \<Rightarrow> int \<Rightarrow> int list \<Rightarrow> trace
     \<Rightarrow> (exn + bool) \<times> trace" where
  "delete_knowledge_base_attempts_v2 w self kb name max_retries [] t = (Inr False, t)"
| "delete_knowledge_base_attempts_v2 w self kb name max_retries (attempt # rest) t =
     (let t1 = debug_print self ''Attempting to delete KB {}, attempt {}'' [S kb, N (attempt + 1)] t
                 @ [Call (DeleteKnowledgeBase kb)]
      in case api_delete_knowledge_base w t1 of
        None \<Rightarrow> (Inr True, t1 @ [Print ''Successfully deleted Knowledge Base: {}'' [S name]])
      | Some e \<Rightarrow>
          if is_TimeoutError e then
            if attempt < max_retries - 1 then
              delete_knowledge_base_attempts_v2 w self kb name max_retries rest
                (t1 @ [Print ''Timeout on deletion attempt {}, retrying in 15 seconds...''
                         [N (attempt + 1)],
                       Sleep 15000])
            else
              (Inr False,
               t1 @ [Print ''Timeout deleting Knowledge Base {} after {} attempts''
                       [S name, N max_retries]])
          else if is_ClientError e then
            (let error_message = client_error_str e in
             if attempt < max_retries - 1 then
               delete_knowledge_base_attempts_v2 w self kb name max_retries rest
                 (t1 @ [Print ''Deletion attempt {} failed, retrying in 15 seconds...''
                          [N (attempt + 1)],
                        Print ''    Error: {}'' [S error_message],
                        Sleep 15000])
             else
               (Inr False,
                t1 @ [Print ''Failed to delete Knowledge Base {} after {} attempts''
                        [S name, N max_retries],
                      Print ''    Final error: {}'' [S error_message]]))
          else (Inl e, t1))"

definition delete_knowledge_base_with_timeout ::
  "world \<Rightarrow> cleaner_v2 \<Rightarrow> string \<Rightarrow> string \<Rightarrow> int \<Rightarrow> trace \<Rightarrow> (exn + bool) \<times> trace" where
  "delete_knowledge_base_with_timeout w self kb name max_retries t =
     (if dry_run self then
        (Inr True, t @ [Print ''[DRY RUN] Would delete KB: {} (ID: {})'' [S name, S kb]])
      else
        case list_data_sources_with_timeout w self kb
               (t @ [Print ''Deleting Knowledge Base: {} (ID: {})'' [S name, S kb]]) of
          (Inl e, t1) \<Rightarrow> (Inl e, t1)
        | (Inr data_sources, t1) \<Rightarrow>
            (case (if data_sources \<noteq> [] then
                     delete_each_data_source_v2 w self kb data_sources
                       (t1 @ [Print ''  Found {} data sources to delete first''
                                [N (int (length data_sources))]])
                   else (Inr (), t1)) of
               (Inl e, t2) \<Rightarrow> (Inl e, t2)
             | (Inr u, t2) \<Rightarrow>
                 delete_knowledge_base_attempts_v2 w self kb name max_retries [0..max_retries - 1]
                   (if data_sources \<noteq> [] then
                      t2 @ [Print ''    Waiting for data source deletions to complete...'' [],
                            Sleep 8000]
                    else t2)))"

text \<open>
  Python's \<open>range(start, stop, step)\<close>, which raises \<open>ValueError\<close> on a zero step, and
  the slice \<open>xs[i:j]\<close>, with its treatment of negative and too large indices.
\<close>

definition py_range :: "int \<Rightarrow> int \<Rightarrow> int \<Rightarrow> exn + int list" where
  "py_range start stop step =
     (if step = 0 then Inl ValueError
      else if step > 0 then
        Inr (map (\<lambda>k. start + int k * step) [0..<nat ((stop - start + step - 1) div step)])
      else
        Inr (map (\<lambda>k. start + int k * step) [0..<nat ((start - stop - step - 1) div (- step))]))"

definition py_index :: "nat \<Rightarrow> int \<Rightarrow> nat" where
  "py_index n i = (if i < 0 then nat (max (i + int n) 0) else min (nat i) n)"

definition py_slice :: "'a list \<Rightarrow> int \<Rightarrow> int \<Rightarrow> 'a list" where
  "py_slice xs i j =
     take (py_index (length xs) j - py_index (length xs) i) (drop (py_index (length xs) i) xs)"

text \<open>
  \<open>BedrockKBCleanerV2.delete_all_knowledge_bases\<close>: the loop over one batch, the loop
  over the batch starts, the summary with the success rate, and the body.
\<close>

fun process_batch ::
  "world \<Rightarrow> cleaner_v2 \<Rightarrow> nat \<Rightarrow> int \<Rightarrow> nat \<Rightarrow> (nat \<times> kb_summary) list \<Rightarrow> int \<Rightarrow> int \<Rightarrow> trace
     \<Rightarrow> (exn + int \<times> int) \<times> trace" where
  "process_batch w self len batch_start batch_len [] success_count failure_count t =
     (Inr (success_count, failure_count), t)"
| "process_batch w self len batch_start batch_len ((i, kb) # rest) success_count failure_count t =
     (let overall_index = batch_start + int i + 1 in
      case delete_knowledge_base_with_timeout w self (kb_id kb) (kb_name kb) 3
             (t @ [Print ''[{}/{}] Processing: {}''
                     [N overall_index, N (int len), S (kb_name kb)]]) of
        (Inl e, t1) \<Rightarrow> (Inl e, t1)
      | (Inr deleted, t1) \<Rightarrow>
          (let t2 = (if deleted then t1 @ [Print ''    Completed in {} seconds'' []] else t1) in
           process_batch w self len batch_start batch_len rest
             (if deleted then success_count + 1 else success_count)
             (if deleted then failure_count else failure_count + 1)
             (if int i < int batch_len - 1 then t2 @ [Sleep 2000] else t2)))"

fun process_batches ::
  "world \<Rightarrow> cleaner_v2 \<Rightarrow> kb_summary list \<Rightarrow> int \<Rightarrow> int list \<Rightarrow> int \<Rightarrow> int \<Rightarrow> trace
     \<Rightarrow> (exn + int \<times> int) \<times> trace" where
  "process_batches w self knowledge_bases batch_size [] success_count failure_count t =
     (Inr (success_count, failure_count), t)"
| "process_batches w self knowledge_bases batch_size (batch_start # rest)
       success_count failure_count t =
     (let len = length knowledge_bases;
          batch_end = min (batch_start + batch_size) (int len);
          batch = py_slice knowledge_bases batch_start batch_end
      in case process_batch w self len batch_start (length batch) (enumerate 0 batch)
                success_count failure_count
                (t @ [Print ''Processing batch {} ({}-{} of {})''
                        [N (batch_start div batch_size + 1), N (batch_start + 1), N batch_end,
                         N (int len)]]) of
           (Inl e, t1) \<Rightarrow> (Inl e, t1)
         | (Inr (success_count', failure_count'), t1) \<Rightarrow>
             process_batches w self knowledge_bases batch_size rest success_count' failure_count'
               (if batch_end < int len then
                  t1 @ [Print ''    Waiting 10 seconds before next batch...'' [], Sleep 10000]
                else t1))"

definition failure_hints_v2 :: "trace" where
  "failure_hints_v2 =
     failure_hints @ [Print ''  4. Re-run this script to retry failed deletions'' []]"

text \<open>
  The success rate \<open>success_count/(success_count+failure_count)*100\<close> is printed from
  the two counters; its division raises \<open>ZeroDivisionError\<close> when both are zero.
\<close>

definition final_summary :: "int \<Rightarrow> int \<Rightarrow> trace \<Rightarrow> (exn + unit) \<times> trace" where
  "final_summary success_count failure_count t =
     (let t1 = t @ [Print ''Final Deletion Summary:'' [],
                    Print ''  Successful: {}'' [N success_count],
                    Print ''  Failed: {}'' [N failure_count]]
      in if success_count + failure_count = 0 then (Inl ZeroDivisionError, t1)
         else
           (Inr (),
            t1 @ [Print ''  Success Rate: {}%'' [N success_count, N (success_count + failure_count)]]
               @ (if failure_count > 0 then failure_hints_v2 else [])))"

definition delete_all_confirmed_v2 ::
  "world \<Rightarrow> cleaner_v2 \<Rightarrow> kb_summary list \<Rightarrow> int \<Rightarrow> trace \<Rightarrow> (exn + unit) \<times> trace" where
  "delete_all_confirmed_v2 w self knowledge_bases batch_size t =
     (let t1 = t @ [Print ''Starting deletion of {} Knowledge Bases...''
                      [N (int (length knowledge_bases))],
                    Print ''Processing in batches of {} to avoid overwhelming the service...''
                      [N batch_size]]
      in case py_range 0 (int (length knowledge_bases)) batch_size of
           Inl e \<Rightarrow> (Inl e, t1)
         | Inr batch_starts \<Rightarrow>
             (case process_batches w self knowledge_bases batch_size batch_starts 0 0 t1 of
                (Inl e, t2) \<Rightarrow> (Inl e, t2)
              | (Inr (success_count, failure_count), t2) \<Rightarrow>
                  final_summary success_count failure_count t2))"

definition delete_all_knowledge_bases_v2 ::
  "world \<Rightarrow> cleaner_v2 \<Rightarrow> bool \<Rightarrow> int \<Rightarrow> trace \<Rightarrow> (exn + unit) \<times> trace" where
  "delete_all_knowledge_bases_v2 w self confirm batch_size t =
     (case list_knowledge_bases_v2 w self t of
        (Inl e, t1) \<Rightarrow> (Inl e, t1)
      | (Inr knowledge_bases, t1) \<Rightarrow>
          if knowledge_bases = [] then
            (Inr (), t1 @ [Print ''No Knowledge Bases found to delete.'' []])
          else if \<not> dry_run self \<and> \<not> confirm then
            (let t2 = t1 @ [Print ''WARNING: This will delete ALL {} Knowledge Bases!''
                              [N (int (length knowledge_bases))],
                            Print ''This action cannot be undone.'' [],
                            Input ''Are you sure you want to continue? (type 'DELETE' to confirm): '']
             in case user_input w t2 of
                  Inl e \<Rightarrow> (Inl e, t2)
                | Inr response \<Rightarrow>
                    if response \<noteq> ''DELETE'' then (Inr (), t2 @ [Print ''Operation cancelled.'' []])
                    else delete_all_confirmed_v2 w self knowledge_bases batch_size t2)
          else delete_all_confirmed_v2 w self knowledge_bases batch_size t1)"

text \<open>\<open>main\<close> of version 2, on the parsed command line.\<close>

record args_v2 =
  arg2_region :: string
  arg2_dry_run :: bool
  arg2_confirm :: bool
  arg2_debug :: bool
  arg2_batch_size :: int

definition main_v2 :: "world \<Rightarrow> args_v2 \<Rightarrow> trace \<Rightarrow> (exn + unit) \<times> trace" where
  "main_v2 w a t =
     (let t1 = t @ [Print ''AWS Bedrock Knowledge Base Cleaner v2 (Enhanced)'' [],
                    Print (replicate 55 (CHR ''='')) []];
          t2 = (if arg2_debug a then t1 @ [Print ''Debug mode enabled'' []] else t1)
      in case init_v2 w (arg2_region a) (arg2_dry_run a) (arg2_debug a) t2 of
           (Inl e, t3) \<Rightarrow> (Inl e, t3)
         | (Inr self, t3) \<Rightarrow>
             (case delete_all_knowledge_bases_v2 w self (arg2_confirm a) (arg2_batch_size a) t3 of
                (Inr u, t4) \<Rightarrow> (Inr (), t4)
              | (Inl e, t4) \<Rightarrow>
                  if e = KeyboardInterrupt then
                    (Inl (SystemExit 1),
                     t4 @ [Print ''Operation interrupted by user'' [],
                           Print ''Some deletions may have completed. Re-run the script to continue.'' []])
                  else if is_Exception e then
                    (Inl (SystemExit 1),
                     t4 @ [Print ''Unexpected error: {}'' [E e]]
                        @ (if arg2_debug a then [Print ''{traceback}'' []] else []))
                  else (Inl e, t4)))"

section \<open>The exit status of a run\<close>

text \<open>
  What the interpreter makes of the way \<open>main\<close> ends: a normal return is exit code 0,
  \<open>sys.exit(n)\<close> is exit code \<open>n\<close>, an uncaught \<open>KeyboardInterrupt\<close> ends the process
  by the interrupt signal (CPython 3.8 and later) and any other uncaught exception is
  exit code 1.
\<close>

datatype status = ExitCode int | KilledBySIGINT

fun process_status :: "exn + unit \<Rightarrow> status" where
  "process_status (Inr u) = ExitCode 0"
| "process_status (Inl (SystemExit n)) = ExitCode n"
| "process_status (Inl KeyboardInterrupt) = KilledBySIGINT"
| "process_status (Inl e) = ExitCode 1"

section \<open>The polling loops of \<^verbatim>\<open>kb_test.py\<close>\<close>

text \<open>
  The provisioning script polls the status of a resource. Each answer is again a function
  of the trace. A \<open>while\<close> loop without a bound is a partial function: \<open>None\<close> is a
  loop that never returns.
\<close>

record provisioner =
  api_get_knowledge_base :: "trace \<Rightarrow> exn + string"
  api_get_agent_action_group :: "trace \<Rightarrow> exn + string"
  api_get_agent :: "trace \<Rightarrow> exn + string option"

text \<open>\<open>wait_for_kb_active\<close>: the \<open>while True\<close> loop, and the function.\<close>

partial_function (option) wait_for_kb_active_loop ::
  "provisioner \<Rightarrow> string \<Rightarrow> trace \<Rightarrow> ((exn + unit) \<times> trace) option" where
  "wait_for_kb_active_loop w kb t =
     (let t1 = t @ [Call (GetKnowledgeBase kb)] in
      case api_get_knowledge_base w t1 of
        Inl e \<Rightarrow> Some (Inl e, t1)
      | Inr status \<Rightarrow>
          (let t2 = t1 @ [Print ''KB status: {}'' [S status]] in
           if status = ''ACTIVE'' then Some (Inr (), t2 @ [Print ''Knowledge Base is ACTIVE'' []])
           else if status = ''FAILED'' then
             Some (Inl (OtherException ''Knowledge Base creation FAILED.''), t2)
           else wait_for_kb_active_loop w kb (t2 @ [Sleep 5000])))"

definition wait_for_kb_active ::
  "provisioner \<Rightarrow> string \<Rightarrow> trace \<Rightarrow> ((exn + unit) \<times> trace) option" where
  "wait_for_kb_active w kb t =
     wait_for_kb_active_loop w kb (t @ [Print ''Waiting for Knowledge Base to become ACTIVE...'' []])"

text \<open>
  The loop \<open>while status != "ENABLED"\<close> of \<open>enable_code_interpreter\<close>, for one action
  group; \<open>status\<close> starts as the empty string.
\<close>

partial_function (option) wait_for_action_group_loop ::
  "provisioner \<Rightarrow> string \<Rightarrow> string \<Rightarrow> string \<Rightarrow> string \<Rightarrow> trace
     \<Rightarrow> ((exn + unit) \<times> trace) option" where
  "wait_for_action_group_loop w agent ag label status t =
     (if status \<noteq> ''ENABLED'' then
        (let t1 = t @ [Call (GetAgentActionGroup agent ag)] in
         case api_get_agent_action_group w t1 of
           Inl e \<Rightarrow> Some (Inl e, t1)
         | Inr status' \<Rightarrow>
             wait_for_action_group_loop w agent ag label status'
               (t1 @ [Print ''{} status: {}'' [S label, S status'], Sleep 2000]))
      else Some (Inr (), t))"

definition wait_for_action_group ::
  "provisioner \<Rightarrow> string \<Rightarrow> string \<Rightarrow> string \<Rightarrow> trace \<Rightarrow> ((exn + unit) \<times> trace) option" where
  "wait_for_action_group w agent ag label t =
     wait_for_action_group_loop w agent ag label []
       (t @ [Print '' Waiting for {} action group to be ENABLED...'' [S label]])"

text \<open>
  \<open>wait_for_agent_status\<close>: the loop \<open>for attempt in range(max_retries)\<close>, which ends
  with a \<open>TimeoutError\<close> when the attempts are used up.
\<close>

fun wait_for_agent_status_attempts ::
  "provisioner \<Rightarrow> string \<Rightarrow> string \<Rightarrow> nat \<Rightarrow> int list \<Rightarrow> trace \<Rightarrow> (exn + unit) \<times> trace" where
  "wait_for_agent_status_attempts w agent expected_status interval [] t = (Inl TimeoutError, t)"
| "wait_for_agent_status_attempts w agent expected_status interval (attempt # rest) t =
     (let t1 = t @ [Call (GetAgent agent)] in
      case (case api_get_agent w t1 of
              Inl e \<Rightarrow> if is_Exception e then Inr ''UNKNOWN'' else Inl e
            | Inr None \<Rightarrow> Inr ''UNKNOWN''
            | Inr (Some s) \<Rightarrow> Inr s) of
        Inl e \<Rightarrow> (Inl e, t1)
      | Inr current_status \<Rightarrow>
          (let t2 = t1 @ [Print ''Agent status: {}'' [S current_status]] in
           if current_status = expected_status then
             (Inr (), t2 @ [Print ''Agent reached status: {}'' [S expected_status]])
           else if current_status \<in> set [''FAILED'', ''DELETING'', ''DELETED''] then
             (Inl (OtherException (''Agent reached terminal state: '' @ current_status)), t2)
           else
             wait_for_agent_status_attempts w agent expected_status interval rest
               (t2 @ [Sleep (interval * 1000)])))"

definition wait_for_agent_status ::
  "provisioner \<Rightarrow> string \<Rightarrow> string \<Rightarrow> int \<Rightarrow> nat \<Rightarrow> trace \<Rightarrow> (exn + unit) \<times> trace" where
  "wait_for_agent_status w agent expected_status max_retries interval t =
     wait_for_agent_status_attempts w agent expected_status interval [0..max_retries - 1]
       (t @ [Print ''Waiting for agent {} to reach status: {}'' [S agent, S expected_status]])"

section \<open>Example worlds\<close>

text \<open>
  A world in which every call succeeds: two knowledge bases on one page, one data source
  for each, and a user who types the given answer.
\<close>

definition calm :: "string \<Rightarrow> world" where
  "calm answer =
     \<lparr>boto3_client = (\<lambda>t. None),
      api_list_knowledge_bases = (\<lambda>t. None),
      paginate_knowledge_bases =
        (\<lambda>t. ([[\<lparr>kb_id = ''KB1'', kb_name = ''first'', kb_status = ''ACTIVE''\<rparr>,
                  \<lparr>kb_id = ''KB2'', kb_name = ''second'', kb_status = ''ACTIVE''\<rparr>]], None)),
      paginate_data_sources = (\<lambda>t. ([[\<lparr>ds_id = ''DS1'', ds_name = ''docs''\<rparr>]], None)),
      api_get_data_source = (\<lambda>t. Inr \<lparr>src_name = ''docs'', src_configuration = ''s3''\<rparr>),
      api_update_data_source = (\<lambda>t. None),
      api_delete_data_source = (\<lambda>t. None),
      api_delete_knowledge_base = (\<lambda>t. None),
      user_input = (\<lambda>t. Inr answer)\<rparr>"

definition cleaner_v1 :: "bool \<Rightarrow> cleaner" where
  "cleaner_v1 dr = \<lparr>region = ''us-east-1'', dry_run = dr\<rparr>"

definition cleaner_v2 :: "bool \<Rightarrow> cleaner_v2" where
  "cleaner_v2 dr = \<lparr>region = ''us-east-1'', dry_run = dr, debug = False\<rparr>"


section \<open>Events of the report\<close>

text \<open>The two lines of the summary that carry the counters.\<close>

fun summary_line :: "event \<Rightarrow> bool" where
  "summary_line (Print s as) = (s = ''  Successful: {}'' \<or> s = ''  Failed: {}'')"
| "summary_line e = False"

text \<open>
  The events of the batches of version 2: the header of a batch, the line of an item,
  and the delay between two batches with its announcement.
\<close>

fun batch_event :: "event \<Rightarrow> bool" where
  "batch_event (Print s as) =
     (s = ''Processing batch {} ({}-{} of {})'' \<or> s = ''[{}/{}] Processing: {}''
      \<or> s = ''    Waiting 10 seconds before next batch...'')"
| "batch_event (Sleep n) = (n = 10000)"
| "batch_event e = False"

definition reporting :: "event \<Rightarrow> bool" where
  "reporting e = (summary_line e \<or> batch_event e)"


section \<open>Groups of a batched run, in the words of the specification\<close>

text \<open>
  \<open>ceil_div T B\<close> is the ceiling of \<open>T / B\<close>; \<open>group xs B j\<close> is the \<open>j\<close>-th group of at
  most \<open>B\<close> items, counted from zero. \<open>group_events\<close> is what the run is expected to
  show for group \<open>j\<close>: the header of the batch, one line for each item of the group, and
  the delay of ten seconds unless the group is the last one.
\<close>

definition ceil_div :: "nat \<Rightarrow> nat \<Rightarrow> nat" where
  "ceil_div T B = (T + B - 1) div B"

definition group :: "'a list \<Rightarrow> nat \<Rightarrow> nat \<Rightarrow> 'a list" where
  "group xs B j = take B (drop (j * B) xs)"

definition item_line :: "nat \<Rightarrow> int \<Rightarrow> nat \<times> kb_summary \<Rightarrow> event" where
  "item_line len start p =
     Print ''[{}/{}] Processing: {}'' [N (start + int (fst p) + 1), N (int len), S (kb_name (snd p))]"

definition inter_group_delay :: "trace" where
  "inter_group_delay =
     [Print ''    Waiting 10 seconds before next batch...'' [], Sleep 10000]"

definition group_events :: "kb_summary list \<Rightarrow> nat \<Rightarrow> nat \<Rightarrow> trace" where
  "group_events kbs B j =
     Print ''Processing batch {} ({}-{} of {})''
       [N (int j + 1), N (int (j * B) + 1), N (int (min (j * B + B) (length kbs))),
        N (int (length kbs))]
     # map (item_line (length kbs) (int (j * B))) (enumerate 0 (group kbs B j))
     @ (if Suc j < ceil_div (length kbs) B then inter_group_delay else [])"

text \<open>The same events for a batch as the loop of the source computes it, from its start.\<close>

definition batch_trace :: "kb_summary list \<Rightarrow> int \<Rightarrow> int \<Rightarrow> trace" where
  "batch_trace kbs batch_size batch_start =
     (let len = length kbs;
          batch_end = min (batch_start + batch_size) (int len);
          batch = py_slice kbs batch_start batch_end
      in Print ''Processing batch {} ({}-{} of {})''
           [N (batch_start div batch_size + 1), N (batch_start + 1), N batch_end, N (int len)]
         # map (item_line len batch_start) (enumerate 0 batch)
         @ (if batch_end < int len then inter_group_delay else []))"


text \<open>A provisioning world whose resources never leave their first status.\<close>

definition stuck :: provisioner where
  "stuck = \<lparr>api_get_knowledge_base = (\<lambda>t. Inr ''CREATING''),
            api_get_agent_action_group = (\<lambda>t. Inr ''DISABLED''),
            api_get_agent = (\<lambda>t. Inr (Some ''CREATING''))\<rparr>"


text \<open>
  Worlds that fail: no credentials when the client is created; a listing that is denied;
  a user who interrupts at the prompt. And the command lines without flags.
\<close>

definition access_denied :: exn where
  "access_denied =
     ClientError ''AccessDeniedException'' ''User is not authorized to perform this action''
       ''ListKnowledgeBases'' []"

definition no_credentials :: world where
  "no_credentials = (calm ''DELETE'')\<lparr>boto3_client := (\<lambda>t. Some NoCredentialsError)\<rparr>"

definition denied :: world where
  "denied = (calm ''DELETE'')
     \<lparr>api_list_knowledge_bases := (\<lambda>t. Some access_denied),
      paginate_knowledge_bases := (\<lambda>t. ([], Some access_denied))\<rparr>"

definition interrupted :: world where
  "interrupted = (calm ''DELETE'')\<lparr>user_input := (\<lambda>t. Inl KeyboardInterrupt)\<rparr>"

definition plain_args :: args where
  "plain_args =
     \<lparr>arg_region = ''us-east-1'', arg_dry_run = False, arg_confirm = False,
      arg_list_regions = False\<rparr>"

definition plain_args_v2 :: args_v2 where
  "plain_args_v2 =
     \<lparr>arg2_region = ''us-east-1'', arg2_dry_run = False, arg2_confirm = False,
      arg2_debug = False, arg2_batch_size = 5\<rparr>"

text \<open>The calls made for one knowledge base: on its data sources, and its deletion.\<close>

fun per_resource :: "event \<Rightarrow> bool" where
  "per_resource (Call (ListDataSources kb)) = True"
| "per_resource (Call (GetDataSource kb ds)) = True"
| "per_resource (Call (UpdateDataSource kb ds n c p)) = True"
| "per_resource (Call (DeleteDataSource kb ds)) = True"
| "per_resource (Call (DeleteKnowledgeBase kb)) = True"
| "per_resource e = False"


section \<open>Deletion calls\<close>

text \<open>
  The two deletion calls, and the deletion calls expected for the data sources of a
  knowledge base when the \<open>i\<close>-th data source takes \<open>ns ! i\<close> attempts.
\<close>

fun deletion :: "event \<Rightarrow> bool" where
  "deletion (Call (DeleteDataSource kb ds)) = True"
| "deletion (Call (DeleteKnowledgeBase kb)) = True"
| "deletion e = False"

definition data_source_deletions :: "string \<Rightarrow> nat list \<Rightarrow> ds_summary list \<Rightarrow> trace" where
  "data_source_deletions kb ns dss =
     concat (map2 (\<lambda>n ds. replicate n (Call (DeleteDataSource kb (ds_id ds)))) ns dss)"


text \<open>
  Worlds with failing deletions. In \<open>flaky\<close> the first deletion call of a run fails
  when it is for a data source, with a vector store error, and the third fails when it
  is for a knowledge base, with a conflict; the other calls succeed. In \<open>stubborn\<close> every deletion
  of a data source fails with a vector store error. In \<open>throttled\<close> the look-up of the
  data source fails as well.
\<close>

definition vector_store_error :: exn where
  "vector_store_error =
     ClientError ''ValidationException'' ''Unable to delete data from vector store''
       ''DeleteDataSource'' []"

definition conflict :: exn where
  "conflict =
     ClientError ''ConflictException'' ''Knowledge base still has data sources''
       ''DeleteKnowledgeBase'' []"

definition throttling :: exn where
  "throttling = ClientError ''ThrottlingException'' ''Rate exceeded'' ''GetDataSource'' []"

definition flaky :: world where
  "flaky = (calm ''DELETE'')
     \<lparr>api_delete_data_source :=
        (\<lambda>t. if length (filter deletion t) = 1 then Some vector_store_error else None),
      api_delete_knowledge_base :=
        (\<lambda>t. if length (filter deletion t) = 3 then Some conflict else None)\<rparr>"

definition stubborn :: world where
  "stubborn = (calm ''DELETE'')\<lparr>api_delete_data_source := (\<lambda>t. Some vector_store_error)\<rparr>"

definition throttled :: world where
  "throttled = stubborn\<lparr>api_get_data_source := (\<lambda>t. Inl throttling)\<rparr>"


section \<open>Traces\<close>

subsection \<open>Traces only grow\<close>

lemma list_knowledge_bases_ext:
  "list_knowledge_bases w self t = (r, t') \<Longrightarrow> \<exists>ev. t' = t @ ev"
  by (auto simp: list_knowledge_bases_def Let_def split: option.splits if_splits)

lemma list_data_sources_ext:
  "list_data_sources w kb t = (r, t') \<Longrightarrow> \<exists>ev. t' = t @ ev"
  by (auto simp: list_data_sources_def Let_def split: option.splits if_splits)

lemma update_data_source_deletion_policy_ext:
  "update_data_source_deletion_policy w kb ds t = (r, t') \<Longrightarrow> \<exists>ev. t' = t @ ev"
  by (auto simp: update_data_source_deletion_policy_def Let_def
      split: option.splits sum.splits if_splits)

lemma delete_data_source_attempts_ext:
  "delete_data_source_attempts w kb ds m as t = (r, t') \<Longrightarrow> \<exists>ev. t' = t @ ev"
  by (induction as arbitrary: t)
     (fastforce simp: Let_def split: option.splits sum.splits if_splits prod.splits
        dest!: update_data_source_deletion_policy_ext)+

lemma delete_each_data_source_ext:
  "delete_each_data_source w kb dss t = (r, t') \<Longrightarrow> \<exists>ev. t' = t @ ev"
  by (induction dss arbitrary: t)
     (fastforce simp: delete_data_source_def split: sum.splits if_splits prod.splits
        dest!: delete_data_source_attempts_ext)+

lemma delete_knowledge_base_attempts_ext:
  "delete_knowledge_base_attempts w kb name m as t = (r, t') \<Longrightarrow> \<exists>ev. t' = t @ ev"
  by (induction as arbitrary: t)
     (fastforce simp: Let_def split: option.splits if_splits)+

lemma delete_knowledge_base_ext:
  "delete_knowledge_base w self kb name m t = (r, t') \<Longrightarrow> \<exists>ev. t' = t @ ev"
  by (fastforce simp: delete_knowledge_base_def split: sum.splits if_splits prod.splits
      dest!: delete_knowledge_base_attempts_ext delete_each_data_source_ext list_data_sources_ext)

lemma delete_all_loop_ext:
  "delete_all_loop w self len xs s f t = (r, t') \<Longrightarrow> \<exists>ev. t' = t @ ev"
  by (induction xs arbitrary: s f t)
     (fastforce split: sum.splits if_splits prod.splits dest!: delete_knowledge_base_ext)+

lemma delete_all_confirmed_ext:
  "delete_all_confirmed w self kbs t = (r, t') \<Longrightarrow> \<exists>ev. t' = t @ ev"
  by (fastforce simp: delete_all_confirmed_def Let_def split: sum.splits if_splits prod.splits
      dest!: delete_all_loop_ext)

lemma delete_all_knowledge_bases_ext:
  "delete_all_knowledge_bases w self c t = (r, t') \<Longrightarrow> \<exists>ev. t' = t @ ev"
  by (fastforce simp: delete_all_knowledge_bases_def Let_def split: sum.splits if_splits prod.splits
      dest!: delete_all_confirmed_ext list_knowledge_bases_ext)

text \<open>version 2\<close>

lemma debug_print_ext: "\<exists>ev. debug_print self m as t = t @ ev"
  by (simp add: debug_print_def)

lemma kb_pages_v2_ext: "\<exists>ev. kb_pages_v2 self ps t = t @ ev"
proof (induction ps arbitrary: t)
  case Nil
  then show ?case by simp
next
  case (Cons p ps)
  obtain n page where p: "p = (n, page)" by (cases p)
  define t1 where "t1 = (let t1 = debug_print self ''Processing page {}'' [N (int n)]
                   (if n > 1 then t @ [Call ListKnowledgeBases] else t)
        in if n > 1 then t1 @ [Sleep 500] else t1)"
  obtain ev where "kb_pages_v2 self ps t1 = t1 @ ev" using Cons.IH by blast
  moreover have "\<exists>ev1. t1 = t @ ev1"
    by (cases "n > 1"; cases "debug self"; simp add: t1_def debug_print_def)
  then obtain ev1 where "t1 = t @ ev1" by blast
  ultimately have "kb_pages_v2 self (p # ps) t = t @ ev1 @ ev"
    using p by (simp add: t1_def)
  then show ?case by blast
qed

lemma list_knowledge_bases_v2_ext:
  "list_knowledge_bases_v2 w self t = (r, t') \<Longrightarrow> \<exists>ev. t' = t @ ev"
  using kb_pages_v2_ext[of self "enumerate 1 (fst (paginate_knowledge_bases w (t @ [Print ''Listing Knowledge Bases in region {}...'' [S (region self)], Call ListKnowledgeBases])))" "t @ [Print ''Listing Knowledge Bases in region {}...'' [S (region self)], Call ListKnowledgeBases]"]
  by (auto simp: list_knowledge_bases_v2_def Let_def split: option.splits if_splits)

lemma list_data_sources_with_timeout_ext:
  "list_data_sources_with_timeout w self kb t = (r, t') \<Longrightarrow> \<exists>ev. t' = t @ ev"
  by (auto simp: list_data_sources_with_timeout_def Let_def debug_print_def
      split: option.splits if_splits)

lemma update_with_timeout_ext:
  "update_data_source_deletion_policy_with_timeout w self kb ds t = (r, t') \<Longrightarrow> \<exists>ev. t' = t @ ev"
  by (auto simp: update_data_source_deletion_policy_with_timeout_def Let_def debug_print_def
      update_failed_def split: option.splits sum.splits if_splits)

lemma delete_data_source_attempts_v2_ext:
  "delete_data_source_attempts_v2 w self kb ds m as t = (r, t') \<Longrightarrow> \<exists>ev. t' = t @ ev"
  by (induction as arbitrary: t)
     (fastforce simp: Let_def debug_print_def split: option.splits sum.splits if_splits prod.splits
        dest!: update_with_timeout_ext)+

lemma delete_each_data_source_v2_ext:
  "delete_each_data_source_v2 w self kb dss t = (r, t') \<Longrightarrow> \<exists>ev. t' = t @ ev"
  by (induction dss arbitrary: t)
     (fastforce simp: delete_data_source_with_timeout_def split: sum.splits if_splits prod.splits
        dest!: delete_data_source_attempts_v2_ext)+

lemma delete_knowledge_base_attempts_v2_ext:
  "delete_knowledge_base_attempts_v2 w self kb name m as t = (r, t') \<Longrightarrow> \<exists>ev. t' = t @ ev"
  by (induction as arbitrary: t)
     (fastforce simp: Let_def debug_print_def split: option.splits if_splits)+

lemma delete_knowledge_base_with_timeout_ext:
  "delete_knowledge_base_with_timeout w self kb name m t = (r, t') \<Longrightarrow> \<exists>ev. t' = t @ ev"
  by (fastforce simp: delete_knowledge_base_with_timeout_def split: sum.splits if_splits prod.splits
      dest!: delete_knowledge_base_attempts_v2_ext delete_each_data_source_v2_ext
        list_data_sources_with_timeout_ext)

lemma process_batch_ext:
  "process_batch w self len b bl xs s f t = (r, t') \<Longrightarrow> \<exists>ev. t' = t @ ev"
  by (induction xs arbitrary: s f t)
     (fastforce simp: Let_def split: sum.splits if_splits prod.splits
        dest!: delete_knowledge_base_with_timeout_ext)+

lemma process_batches_ext:
  "process_batches w self kbs bsz bs s f t = (r, t') \<Longrightarrow> \<exists>ev. t' = t @ ev"
  by (induction bs arbitrary: s f t)
     (fastforce simp: Let_def split: sum.splits if_splits prod.splits
        dest!: process_batch_ext)+

lemma final_summary_ext: "final_summary s f t = (r, t') \<Longrightarrow> \<exists>ev. t' = t @ ev"
  by (auto simp: final_summary_def Let_def split: if_splits)

lemma delete_all_confirmed_v2_ext:
  "delete_all_confirmed_v2 w self kbs bsz t = (r, t') \<Longrightarrow> \<exists>ev. t' = t @ ev"
  by (fastforce simp: delete_all_confirmed_v2_def Let_def split: sum.splits if_splits prod.splits
      dest!: process_batches_ext final_summary_ext)

lemma delete_all_knowledge_bases_v2_ext:
  "delete_all_knowledge_bases_v2 w self c bsz t = (r, t') \<Longrightarrow> \<exists>ev. t' = t @ ev"
  by (fastforce simp: delete_all_knowledge_bases_v2_def Let_def split: sum.splits if_splits prod.splits
      dest!: delete_all_confirmed_v2_ext list_knowledge_bases_v2_ext)


subsection \<open>Listing and dry runs change nothing\<close>

lemma page_requests_mutating [simp]:
  "filter mutating (page_requests ListKnowledgeBases r) = []"
  "filter mutating (page_requests (ListDataSources kb) r) = []"
  by (simp_all add: page_requests_def)

lemma kb_line_mutating [simp]: "filter mutating (map kb_line xs) = []"
  by (induction xs) (simp_all add: kb_line_def)

lemma list_knowledge_bases_mutating:
  "list_knowledge_bases w self t = (r, t') \<Longrightarrow> filter mutating t' = filter mutating t"
  by (auto simp: list_knowledge_bases_def Let_def split: option.splits if_splits)

lemma delete_knowledge_base_dry_run:
  "delete_knowledge_base w self kb name m t = (r, t') \<Longrightarrow> dry_run self
     \<Longrightarrow> filter mutating t' = filter mutating t"
  by (auto simp: delete_knowledge_base_def)

lemma delete_all_loop_dry_run:
  "delete_all_loop w self len xs s f t = (r, t') \<Longrightarrow> dry_run self
     \<Longrightarrow> filter mutating t' = filter mutating t"
  by (induction xs arbitrary: s f t)
     (auto split: prod.splits sum.splits dest!: delete_knowledge_base_dry_run)

lemma delete_all_confirmed_dry_run:
  "delete_all_confirmed w self kbs t = (r, t') \<Longrightarrow> dry_run self
     \<Longrightarrow> filter mutating t' = filter mutating t"
  by (auto simp: delete_all_confirmed_def Let_def failure_hints_def
      split: prod.splits sum.splits if_splits dest!: delete_all_loop_dry_run)

lemma delete_all_knowledge_bases_dry_run:
  "delete_all_knowledge_bases w self c t = (r, t') \<Longrightarrow> dry_run self
     \<Longrightarrow> filter mutating t' = filter mutating t"
  by (auto simp: delete_all_knowledge_bases_def Let_def
      split: prod.splits sum.splits if_splits
      dest!: delete_all_confirmed_dry_run list_knowledge_bases_mutating)

lemma debug_print_mutating [simp]:
  "filter mutating (debug_print self m as t) = filter mutating t"
  by (simp add: debug_print_def)

lemma kb_pages_v2_mutating [simp]:
  "filter mutating (kb_pages_v2 self ps t) = filter mutating t"
  by (induction ps arbitrary: t) (auto simp: Let_def)

lemma list_knowledge_bases_v2_mutating:
  "list_knowledge_bases_v2 w self t = (r, t') \<Longrightarrow> filter mutating t' = filter mutating t"
  by (auto simp: list_knowledge_bases_v2_def Let_def split: option.splits if_splits)

lemma delete_knowledge_base_with_timeout_dry_run:
  "delete_knowledge_base_with_timeout w self kb name m t = (r, t') \<Longrightarrow> dry_run self
     \<Longrightarrow> filter mutating t' = filter mutating t"
  by (auto simp: delete_knowledge_base_with_timeout_def)

lemma process_batch_dry_run:
  "process_batch w self len b bl xs s f t = (r, t') \<Longrightarrow> dry_run self
     \<Longrightarrow> filter mutating t' = filter mutating t"
  by (induction xs arbitrary: s f t)
     (auto simp: Let_def split: prod.splits sum.splits if_splits
        dest!: delete_knowledge_base_with_timeout_dry_run)

lemma process_batches_dry_run:
  "process_batches w self kbs bsz bs s f t = (r, t') \<Longrightarrow> dry_run self
     \<Longrightarrow> filter mutating t' = filter mutating t"
  by (induction bs arbitrary: s f t)
     (auto simp: Let_def split: prod.splits sum.splits if_splits dest!: process_batch_dry_run)

lemma final_summary_mutating:
  "final_summary s f t = (r, t') \<Longrightarrow> filter mutating t' = filter mutating t"
  by (auto simp: final_summary_def Let_def failure_hints_v2_def failure_hints_def split: if_splits)

lemma delete_all_confirmed_v2_dry_run:
  "delete_all_confirmed_v2 w self kbs bsz t = (r, t') \<Longrightarrow> dry_run self
     \<Longrightarrow> filter mutating t' = filter mutating t"
  by (auto simp: delete_all_confirmed_v2_def Let_def
      split: prod.splits sum.splits if_splits
      dest!: process_batches_dry_run final_summary_mutating)

lemma delete_all_knowledge_bases_v2_dry_run:
  "delete_all_knowledge_bases_v2 w self c bsz t = (r, t') \<Longrightarrow> dry_run self
     \<Longrightarrow> filter mutating t' = filter mutating t"
  by (auto simp: delete_all_knowledge_bases_v2_def Let_def
      split: prod.splits sum.splits if_splits
      dest!: delete_all_confirmed_v2_dry_run list_knowledge_bases_v2_mutating)

lemma no_new_mutating:
  "t' = t @ ev \<Longrightarrow> filter mutating t' = filter mutating t \<Longrightarrow> filter mutating ev = []"
  by simp


subsection \<open>The inner functions print no line of the report\<close>

lemma page_requests_reporting [simp]: "filter reporting (page_requests c r) = []"
  by (simp add: page_requests_def reporting_def)

lemma kb_line_reporting [simp]: "filter reporting (map kb_line xs) = []"
  by (induction xs) (simp_all add: kb_line_def reporting_def)

lemma reporting_simps [simp]:
  "reporting (Call c) = False"
  "reporting (Input p) = False"
  "reporting (Sleep n) = (n = 10000)"
  "reporting (Print s as) =
     (s = ''  Successful: {}'' \<or> s = ''  Failed: {}'' \<or> s = ''Processing batch {} ({}-{} of {})''
      \<or> s = ''[{}/{}] Processing: {}'' \<or> s = ''    Waiting 10 seconds before next batch...'')"
  by (auto simp: reporting_def)

lemma list_knowledge_bases_summary:
  "list_knowledge_bases w self t = (r, t') \<Longrightarrow> filter summary_line t' = filter summary_line t"
  by (auto simp: list_knowledge_bases_def Let_def page_requests_def kb_line_def comp_def
      split: option.splits if_splits)

lemma list_data_sources_summary:
  "list_data_sources w kb t = (r, t') \<Longrightarrow> filter summary_line t' = filter summary_line t"
  by (auto simp: list_data_sources_def Let_def page_requests_def split: option.splits if_splits)

lemma update_data_source_deletion_policy_summary:
  "update_data_source_deletion_policy w kb ds t = (r, t')
     \<Longrightarrow> filter summary_line t' = filter summary_line t"
  by (auto simp: update_data_source_deletion_policy_def Let_def
      split: option.splits sum.splits if_splits)

lemma delete_data_source_attempts_summary:
  "delete_data_source_attempts w kb ds m as t = (r, t')
     \<Longrightarrow> filter summary_line t' = filter summary_line t"
  by (induction as arbitrary: t)
     (auto simp: Let_def split: option.splits sum.splits if_splits prod.splits
        dest!: update_data_source_deletion_policy_summary)

lemma delete_each_data_source_summary:
  "delete_each_data_source w kb dss t = (r, t')
     \<Longrightarrow> filter summary_line t' = filter summary_line t"
  by (induction dss arbitrary: t)
     (auto simp: delete_data_source_def split: sum.splits if_splits prod.splits
        dest!: delete_data_source_attempts_summary)

lemma delete_knowledge_base_attempts_summary:
  "delete_knowledge_base_attempts w kb name m as t = (r, t')
     \<Longrightarrow> filter summary_line t' = filter summary_line t"
  by (induction as arbitrary: t)
     (auto simp: Let_def split: option.splits if_splits)

lemma delete_knowledge_base_summary:
  "delete_knowledge_base w self kb name m t = (r, t')
     \<Longrightarrow> filter summary_line t' = filter summary_line t"
  by (auto simp: delete_knowledge_base_def split: sum.splits if_splits prod.splits
      dest!: delete_knowledge_base_attempts_summary delete_each_data_source_summary
        list_data_sources_summary)

lemma delete_all_loop_counts:
  "delete_all_loop w self len xs s f t = (Inr (s', f'), t')
     \<Longrightarrow> filter summary_line t' = filter summary_line t
        \<and> s' + f' = s + f + int (length xs) \<and> s \<le> s' \<and> f \<le> f'"
  by (induction xs arbitrary: s f t)
     (fastforce split: sum.splits if_splits prod.splits dest!: delete_knowledge_base_summary)+


text \<open>version 2\<close>

lemma debug_print_reporting [simp]:
  "filter reporting (debug_print self m as t) = filter reporting t"
  by (simp add: debug_print_def)

lemma kb_pages_v2_reporting [simp]:
  "filter reporting (kb_pages_v2 self ps t) = filter reporting t"
  by (induction ps arbitrary: t) (auto simp: Let_def)

lemma list_knowledge_bases_v2_reporting:
  "list_knowledge_bases_v2 w self t = (r, t') \<Longrightarrow> filter reporting t' = filter reporting t"
  by (auto simp: list_knowledge_bases_v2_def Let_def split: option.splits if_splits)

lemma list_data_sources_with_timeout_reporting:
  "list_data_sources_with_timeout w self kb t = (r, t')
     \<Longrightarrow> filter reporting t' = filter reporting t"
  by (auto simp: list_data_sources_with_timeout_def Let_def split: option.splits if_splits)

lemma update_with_timeout_reporting:
  "update_data_source_deletion_policy_with_timeout w self kb ds t = (r, t')
     \<Longrightarrow> filter reporting t' = filter reporting t"
  by (auto simp: update_data_source_deletion_policy_with_timeout_def Let_def update_failed_def
      split: option.splits sum.splits if_splits)

lemma delete_data_source_attempts_v2_reporting:
  "delete_data_source_attempts_v2 w self kb ds m as t = (r, t')
     \<Longrightarrow> filter reporting t' = filter reporting t"
  by (induction as arbitrary: t)
     (auto simp: Let_def split: option.splits sum.splits if_splits prod.splits
        dest!: update_with_timeout_reporting)

lemma delete_each_data_source_v2_reporting:
  "delete_each_data_source_v2 w self kb dss t = (r, t')
     \<Longrightarrow> filter reporting t' = filter reporting t"
  by (induction dss arbitrary: t)
     (auto simp: delete_data_source_with_timeout_def split: sum.splits if_splits prod.splits
        dest!: delete_data_source_attempts_v2_reporting)

lemma delete_knowledge_base_attempts_v2_reporting:
  "delete_knowledge_base_attempts_v2 w self kb name m as t = (r, t')
     \<Longrightarrow> filter reporting t' = filter reporting t"
  by (induction as arbitrary: t)
     (auto simp: Let_def split: option.splits if_splits)

lemma delete_knowledge_base_with_timeout_reporting:
  "delete_knowledge_base_with_timeout w self kb name m t = (r, t')
     \<Longrightarrow> filter reporting t' = filter reporting t"
  by (auto simp: delete_knowledge_base_with_timeout_def split: sum.splits if_splits prod.splits
      dest!: delete_knowledge_base_attempts_v2_reporting delete_each_data_source_v2_reporting
        list_data_sources_with_timeout_reporting)

lemma filter_weaken:
  "filter R t' = filter R t \<Longrightarrow> t' = t @ ev \<Longrightarrow> (\<And>e. Q e \<Longrightarrow> R e)
     \<Longrightarrow> filter Q t' = filter Q t"
  by (auto simp: filter_empty_conv)


subsection \<open>The batches of version 2\<close>

lemma process_batch_reporting:
  "process_batch w self len b bl xs s f t = (Inr (s', f'), t')
     \<Longrightarrow> filter reporting t' = filter reporting t @ map (item_line len b) xs
        \<and> s' + f' = s + f + int (length xs) \<and> s \<le> s' \<and> f \<le> f'"
  by (induction xs arbitrary: s f t)
     (fastforce simp: Let_def item_line_def split: sum.splits if_splits prod.splits
        dest!: delete_knowledge_base_with_timeout_reporting)+

lemma process_batches_reporting:
  "process_batches w self kbs bsz bs s f t = (Inr (s', f'), t')
     \<Longrightarrow> filter reporting t' = filter reporting t @ concat (map (batch_trace kbs bsz) bs)
        \<and> s' + f' = s + f
              + (\<Sum>b\<leftarrow>bs. int (length (py_slice kbs b (min (b + bsz) (int (length kbs))))))
        \<and> s \<le> s' \<and> f \<le> f'"
proof (induction bs arbitrary: s f t)
  case Nil
  then show ?case by simp
next
  case (Cons b bs)
  let ?e = "min (b + bsz) (int (length kbs))"
  let ?batch = "py_slice kbs b ?e"
  let ?t0 = "t @ [Print ''Processing batch {} ({}-{} of {})''
                        [N (b div bsz + 1), N (b + 1), N ?e, N (int (length kbs))]]"
  obtain r1 t1 where pb: "process_batch w self (length kbs) b (length ?batch) (enumerate 0 ?batch)
      s f ?t0 = (r1, t1)"
    by (cases "process_batch w self (length kbs) b (length ?batch) (enumerate 0 ?batch) s f ?t0")
  from Cons.prems pb obtain s1 f1 where r1: "r1 = Inr (s1, f1)"
    by (cases r1) (auto simp: Let_def)
  let ?t2 = "if ?e < int (length kbs) then t1 @ inter_group_delay else t1"
  from Cons.prems pb r1
  have rest: "process_batches w self kbs bsz bs s1 f1 ?t2 = (Inr (s', f'), t')"
    by (auto simp: Let_def inter_group_delay_def split: if_splits)
  from process_batch_reporting[OF pb[unfolded r1]]
  have 1: "filter reporting t1 = filter reporting ?t0 @ map (item_line (length kbs) b) (enumerate 0 ?batch)"
    and 2: "s1 + f1 = s + f + int (length ?batch)" "s \<le> s1" "f \<le> f1"
    by simp_all
  from Cons.IH[OF rest]
  have 3: "filter reporting t' = filter reporting ?t2 @ concat (map (batch_trace kbs bsz) bs)"
    and 4: "s' + f' = s1 + f1
              + (\<Sum>b\<leftarrow>bs. int (length (py_slice kbs b (min (b + bsz) (int (length kbs))))))"
      "s1 \<le> s'" "f1 \<le> f'"
    by simp_all
  have "filter reporting ?t2 = filter reporting t @ batch_trace kbs bsz b"
    using 1 by (simp add: batch_trace_def Let_def inter_group_delay_def)
  with 3 have "filter reporting t' = filter reporting t @ concat (map (batch_trace kbs bsz) (b # bs))"
    by simp
  with 2 4 show ?case by simp
qed


subsection \<open>Ranges, slices and groups\<close>

lemma ceil_div_less_iff: "0 < B \<Longrightarrow> m < ceil_div T B \<longleftrightarrow> m * B < T"
proof -
  assume B: "0 < B"
  have "m < ceil_div T B \<longleftrightarrow> Suc m \<le> (T + B - 1) div B"
    by (simp add: ceil_div_def Suc_le_eq)
  also have "\<dots> \<longleftrightarrow> Suc m * B \<le> T + B - 1"
    using B by (simp add: less_eq_div_iff_mult_less_eq)
  also have "\<dots> \<longleftrightarrow> m * B < T"
    using B by auto
  finally show ?thesis .
qed

lemma ceil_div_covers: "0 < B \<Longrightarrow> T \<le> ceil_div T B * B"
  using ceil_div_less_iff[of B "ceil_div T B" T] by (simp add: not_less)

lemma py_range_positive:
  assumes "0 < B"
  shows "py_range 0 (int T) (int B) = Inr (map (\<lambda>j. int (j * B)) [0..<ceil_div T B])"
proof -
  have "(int T - 0 + int B - 1) div int B = int ((T + B - 1) div B)"
    using assms by (simp add: zdiv_int)
  then show ?thesis
    using assms by (simp add: py_range_def ceil_div_def)
qed

lemma py_range_negative:
  assumes "B < 0"
  shows "py_range 0 (int T) B = Inr []"
proof -
  have "(0 - int T - B - 1) div (- B) \<le> 0"
  proof (cases "0 - int T - B - 1 < 0")
    case True
    then have "(0 - int T - B - 1) div (- B) < 0"
      using assms by (intro div_neg_pos_less0) auto
    then show ?thesis by simp
  next
    case False
    then have "(0 - int T - B - 1) div (- B) = 0"
      using assms by (intro div_pos_pos_trivial) auto
    then show ?thesis by simp
  qed
  then show ?thesis using assms by (simp add: py_range_def)
qed

lemma min_int: "min (int a + int b) (int c) = int (min (a + b) c)"
  by (simp add: min_def)

lemma py_slice_group:
  "py_slice xs (int (j * B)) (min (int (j * B) + int B) (int (length xs))) = group xs B j"
proof -
  have "py_slice xs (int (j * B)) (int (min (j * B + B) (length xs)))
      = take (min (j * B + B) (length xs) - min (j * B) (length xs))
          (drop (min (j * B) (length xs)) xs)"
    unfolding py_slice_def py_index_def by (simp del: of_nat_mult of_nat_add)
  also have "\<dots> = take B (drop (j * B) xs)"
    by (cases "j * B \<le> length xs") (auto simp: min_def)
  finally show ?thesis unfolding min_int by (simp add: group_def)
qed

lemma concat_groups: "concat (map (group xs B) [0..<n]) = take (n * B) xs"
proof (induction n)
  case 0
  then show ?case by simp
next
  case (Suc n)
  have "take (Suc n * B) xs = take (n * B + B) xs" by (simp add: add.commute)
  also have "\<dots> = take (n * B) xs @ take B (drop (n * B) xs)" by (rule take_add)
  finally show ?case using Suc by (simp add: group_def)
qed

lemma groups_cover: "0 < B \<Longrightarrow> concat (map (group xs B) [0..<ceil_div (length xs) B]) = xs"
  by (simp add: concat_groups ceil_div_covers)

lemma length_groups:
  "0 < B \<Longrightarrow> (\<Sum>j\<leftarrow>[0..<ceil_div (length xs) B]. int (length (group xs B j))) = int (length xs)"
proof -
  assume B: "0 < B"
  have "(\<Sum>j\<leftarrow>[0..<n]. int (length (group xs B j))) = int (length (concat (map (group xs B) [0..<n])))" for n
    by (induction n) simp_all
  with groups_cover[OF B, of xs] show ?thesis by simp
qed

lemma batch_trace_group_events:
  assumes "0 < B"
  shows "batch_trace kbs (int B) (int (j * B)) = group_events kbs B j"
proof -
  have 1: "int (j * B) div int B = int j"
    using assms by (simp flip: of_nat_mult zdiv_int)
  have 3: "min (j * B + B) (length kbs) < length kbs \<longleftrightarrow> Suc j < ceil_div (length kbs) B"
    using assms by (auto simp: ceil_div_less_iff min_def add.commute)
  show ?thesis
    unfolding batch_trace_def group_events_def Let_def min_int py_slice_group[unfolded min_int] 1
    using 3 by (simp del: of_nat_mult of_nat_add)
qed


subsection \<open>The report of a run\<close>

lemma filter_filter_weaken: "(\<And>e. Q e \<Longrightarrow> R e) \<Longrightarrow> filter Q (filter R xs) = filter Q xs"
  by (induction xs) auto

lemma filter_summary_reporting: "filter summary_line (filter reporting xs) = filter summary_line xs"
  by (rule filter_filter_weaken) (simp add: reporting_def)

lemma filter_batch_reporting: "filter batch_event (filter reporting xs) = filter batch_event xs"
  by (rule filter_filter_weaken) (simp add: reporting_def)

lemma group_events_summary [simp]: "filter summary_line (group_events kbs B j) = []"
  by (auto simp: group_events_def inter_group_delay_def item_line_def filter_empty_conv)

lemma group_events_batch [simp]: "filter batch_event (group_events kbs B j) = group_events kbs B j"
  by (auto simp: group_events_def inter_group_delay_def item_line_def filter_id_conv)

lemma concat_group_events_summary [simp]:
  "filter summary_line (concat (map (group_events kbs B) js)) = []"
  by (induction js) simp_all

lemma concat_group_events_batch [simp]:
  "filter batch_event (concat (map (group_events kbs B) js)) = concat (map (group_events kbs B) js)"
  by (induction js) simp_all

lemma delete_all_confirmed_summary:
  "delete_all_confirmed w self kbs t = (Inr u, t')
     \<Longrightarrow> \<exists>s f. filter summary_line t'
              = filter summary_line t @ [Print ''  Successful: {}'' [N s], Print ''  Failed: {}'' [N f]]
          \<and> s + f = int (length kbs) \<and> 0 \<le> s \<and> 0 \<le> f"
  by (auto simp: delete_all_confirmed_def Let_def failure_hints_def
      split: prod.splits sum.splits if_splits dest!: delete_all_loop_counts)

lemma final_summary_reporting:
  "final_summary s f t = (Inr u, t')
     \<Longrightarrow> filter reporting t'
           = filter reporting t @ [Print ''  Successful: {}'' [N s], Print ''  Failed: {}'' [N f]]"
  by (auto simp: final_summary_def Let_def failure_hints_v2_def failure_hints_def split: if_splits)

lemma final_summary_zero: "fst (final_summary 0 0 t) = Inl ZeroDivisionError"
  by (simp add: final_summary_def)

lemma delete_all_confirmed_v2_reporting:
  assumes "delete_all_confirmed_v2 w self kbs bsz t = (Inr u, t')"
  shows "0 < bsz \<and> (\<exists>s f. filter reporting t'
              = filter reporting t
                @ concat (map (group_events kbs (nat bsz)) [0..<ceil_div (length kbs) (nat bsz)])
                @ [Print ''  Successful: {}'' [N s], Print ''  Failed: {}'' [N f]]
          \<and> s + f = int (length kbs) \<and> 0 \<le> s \<and> 0 \<le> f)"
proof -
  let ?t1 = "t @ [Print ''Starting deletion of {} Knowledge Bases...'' [N (int (length kbs))],
                  Print ''Processing in batches of {} to avoid overwhelming the service...'' [N bsz]]"
  have pos: "0 < bsz"
  proof (rule ccontr)
    assume "\<not> 0 < bsz"
    then consider "bsz = 0" | "bsz < 0" by linarith
    then show False
    proof cases
      case 1
      with assms show False by (simp add: delete_all_confirmed_v2_def py_range_def)
    next
      case 2
      from py_range_negative[OF 2, of "length kbs"] assms final_summary_zero[of ?t1]
      show False
        by (auto simp: delete_all_confirmed_v2_def Let_def split: prod.splits)
    qed
  qed
  define B where "B = nat bsz"
  with pos have B: "0 < B" "bsz = int B" by simp_all
  let ?starts = "map (\<lambda>j. int (j * B)) [0..<ceil_div (length kbs) B]"
  obtain r2 t2 where pb: "process_batches w self kbs bsz ?starts 0 0 ?t1 = (r2, t2)"
    by (cases "process_batches w self kbs bsz ?starts 0 0 ?t1")
  from assms pb py_range_positive[OF B(1), of "length kbs"] B(2)
  obtain s f where r2: "r2 = Inr (s, f)" and fs: "final_summary s f t2 = (Inr u, t')"
    by (cases r2) (auto simp: delete_all_confirmed_v2_def Let_def)
  from process_batches_reporting[OF pb[unfolded r2]]
  have 1: "filter reporting t2 = filter reporting ?t1 @ concat (map (batch_trace kbs bsz) ?starts)"
    and 2: "s + f = (\<Sum>b\<leftarrow>?starts. int (length (py_slice kbs b (min (b + bsz) (int (length kbs))))))"
      "0 \<le> s" "0 \<le> f"
    by simp_all
  have m: "map (batch_trace kbs bsz) ?starts = map (group_events kbs B) [0..<ceil_div (length kbs) B]"
    by (simp add: B(2) batch_trace_group_events[OF B(1)] del: of_nat_mult)
  have "filter reporting ?t1 = filter reporting t" by simp
  with 1 have 3: "filter reporting t2
      = filter reporting t @ concat (map (group_events kbs B) [0..<ceil_div (length kbs) B])"
    unfolding m by (simp only:)
  have "(\<Sum>b\<leftarrow>?starts. int (length (py_slice kbs b (min (b + bsz) (int (length kbs))))))
      = (\<Sum>j\<leftarrow>[0..<ceil_div (length kbs) B]. int (length (group kbs B j)))"
    by (simp add: B(2) py_slice_group comp_def del: of_nat_mult)
  with 2 length_groups[OF B(1), of kbs] have 4: "s + f = int (length kbs)" by simp
  from final_summary_reporting[OF fs] 3 4 2 pos show ?thesis
    unfolding B_def[symmetric] by auto
qed


lemma delete_all_knowledge_bases_report:
  assumes run: "delete_all_knowledge_bases w self confirm t = (Inr u, t')"
    and ls: "list_knowledge_bases w self t = (Inr kbs, t1)"
  shows "\<exists>ev. t' = t @ ev \<and>
      (((kbs = [] \<or> Print ''Operation cancelled.'' [] \<in> set ev \<and> \<not> dry_run self \<and> \<not> confirm
            \<and> (\<exists>t'. user_input w t' \<noteq> Inr ''DELETE''))
        \<and> filter summary_line ev = [])
       \<or> (\<exists>s f. filter summary_line ev
                  = [Print ''  Successful: {}'' [N s], Print ''  Failed: {}'' [N f]]
              \<and> s + f = int (length kbs) \<and> 0 \<le> s \<and> 0 \<le> f))"
proof -
  from list_knowledge_bases_ext[OF ls] obtain ev1 where ev1: "t1 = t @ ev1" by blast
  from list_knowledge_bases_summary[OF ls] ev1 have q1: "filter summary_line ev1 = []" by simp
  let ?prompt = "[Print ''WARNING: This will delete ALL {} Knowledge Bases!'' [N (int (length kbs))],
       Print ''This action cannot be undone.'' [],
       Input ''Are you sure you want to continue? (type 'DELETE' to confirm): '']"
  consider (none) "kbs = []" "t' = t1 @ [Print ''No Knowledge Bases found to delete.'' []]"
    | (cancelled) "t' = t1 @ ?prompt @ [Print ''Operation cancelled.'' []]"
        "\<not> dry_run self" "\<not> confirm" "\<exists>t'. user_input w t' \<noteq> Inr ''DELETE''"
    | (confirmed) t2 where "t2 = t1 \<or> t2 = t1 @ ?prompt"
        "delete_all_confirmed w self kbs t2 = (Inr u, t')"
    using run ls
    by (fastforce simp: delete_all_knowledge_bases_def Let_def split: if_splits sum.splits)
  then show ?thesis
  proof cases
    case none
    with ev1 q1 show ?thesis by simp
  next
    case cancelled
    with ev1 q1 show ?thesis by simp
  next
    case confirmed
    from delete_all_confirmed_ext[OF confirmed(2)] obtain ev2 where ev2: "t' = t2 @ ev2" by blast
    from delete_all_confirmed_summary[OF confirmed(2)] ev2
    obtain s f where "filter summary_line ev2
            = [Print ''  Successful: {}'' [N s], Print ''  Failed: {}'' [N f]]"
        "s + f = int (length kbs)" "0 \<le> s" "0 \<le> f"
      by auto
    with confirmed(1) ev1 ev2 q1 show ?thesis by auto
  qed
qed

lemma delete_all_knowledge_bases_v2_report:
  assumes run: "delete_all_knowledge_bases_v2 w self confirm bsz t = (Inr u, t')"
    and ls: "list_knowledge_bases_v2 w self t = (Inr kbs, t1)"
  shows "\<exists>ev. t' = t @ ev \<and>
      (((kbs = [] \<or> Print ''Operation cancelled.'' [] \<in> set ev \<and> \<not> dry_run self \<and> \<not> confirm
            \<and> (\<exists>t'. user_input w t' \<noteq> Inr ''DELETE''))
        \<and> filter reporting ev = [])
       \<or> (0 < bsz \<and> (\<exists>s f. filter reporting ev
                  = concat (map (group_events kbs (nat bsz)) [0..<ceil_div (length kbs) (nat bsz)])
                    @ [Print ''  Successful: {}'' [N s], Print ''  Failed: {}'' [N f]]
              \<and> s + f = int (length kbs) \<and> 0 \<le> s \<and> 0 \<le> f)))"
proof -
  from list_knowledge_bases_v2_ext[OF ls] obtain ev1 where ev1: "t1 = t @ ev1" by blast
  from list_knowledge_bases_v2_reporting[OF ls] ev1 have q1: "filter reporting ev1 = []" by simp
  let ?prompt = "[Print ''WARNING: This will delete ALL {} Knowledge Bases!'' [N (int (length kbs))],
       Print ''This action cannot be undone.'' [],
       Input ''Are you sure you want to continue? (type 'DELETE' to confirm): '']"
  consider (none) "kbs = []" "t' = t1 @ [Print ''No Knowledge Bases found to delete.'' []]"
    | (cancelled) "t' = t1 @ ?prompt @ [Print ''Operation cancelled.'' []]"
        "\<not> dry_run self" "\<not> confirm" "\<exists>t'. user_input w t' \<noteq> Inr ''DELETE''"
    | (confirmed) t2 where "t2 = t1 \<or> t2 = t1 @ ?prompt"
        "delete_all_confirmed_v2 w self kbs bsz t2 = (Inr u, t')"
    using run ls
    by (fastforce simp: delete_all_knowledge_bases_v2_def Let_def split: if_splits sum.splits)
  then show ?thesis
  proof cases
    case none
    with ev1 q1 show ?thesis by simp
  next
    case cancelled
    with ev1 q1 show ?thesis by simp
  next
    case confirmed
    from delete_all_confirmed_v2_ext[OF confirmed(2)] obtain ev2 where ev2: "t' = t2 @ ev2" by blast
    from delete_all_confirmed_v2_reporting[OF confirmed(2)] ev2
    obtain s f where "0 < bsz" "filter reporting ev2
            = concat (map (group_events kbs (nat bsz)) [0..<ceil_div (length kbs) (nat bsz)])
              @ [Print ''  Successful: {}'' [N s], Print ''  Failed: {}'' [N f]]"
        "s + f = int (length kbs)" "0 \<le> s" "0 \<le> f"
      by auto
    with confirmed(1) ev1 ev2 q1 show ?thesis by auto
  qed
qed



subsection \<open>Polling\<close>

lemma wait_for_kb_active_loop_stuck:
  assumes "wait_for_kb_active_loop w kb t = Some r"
  shows "w = stuck \<longrightarrow> False"
  using assms
  by (rule wait_for_kb_active_loop.raw_induct[rotated 1,
        where P = "\<lambda>w kb t r. w = stuck \<longrightarrow> False"])
     (auto simp: stuck_def Let_def split: sum.splits if_splits)

lemma wait_for_action_group_loop_stuck:
  assumes "wait_for_action_group_loop w agent ag label status t = Some r"
  shows "w = stuck \<longrightarrow> status \<noteq> ''ENABLED'' \<longrightarrow> False"
  using assms
  by (rule wait_for_action_group_loop.raw_induct[rotated 1,
        where P = "\<lambda>w agent ag label status t r. w = stuck \<longrightarrow> status \<noteq> ''ENABLED'' \<longrightarrow> False"])
     (fastforce simp: stuck_def Let_def split: sum.splits if_splits)

lemma wait_for_agent_status_attempts_bounded:
  "length (filter (\<lambda>e. e = Call (GetAgent agent))
     (snd (wait_for_agent_status_attempts w agent expected interval as t)))
   \<le> length (filter (\<lambda>e. e = Call (GetAgent agent)) t) + length as"
proof (induction as arbitrary: t)
  case Nil
  then show ?case by simp
next
  case (Cons a as)
  have step: "length (filter (\<lambda>e. e = Call (GetAgent agent))
      (snd (wait_for_agent_status_attempts w agent expected interval as
         (t @ [Call (GetAgent agent), Print ''Agent status: {}'' [S s], Sleep (interval * 1000)]))))
    \<le> Suc (length (filter (\<lambda>e. e = Call (GetAgent agent)) t) + length as)" for s
    using Cons.IH[of "t @ [Call (GetAgent agent), Print ''Agent status: {}'' [S s],
      Sleep (interval * 1000)]"] by simp
  show ?case
    by (auto simp: Let_def step split: sum.splits option.splits)
qed


subsection \<open>Deletion calls of one knowledge base\<close>

lemma filter_grows: "t' = t @ ev \<Longrightarrow> length (filter Q t) \<le> length (filter Q t')"
  by simp

lemma only_these:
  assumes "t' = t @ ev"
    and "filter (\<lambda>e. Q e \<and> e \<noteq> x) t' = filter (\<lambda>e. Q e \<and> e \<noteq> x) t"
  shows "filter Q ev = replicate (length (filter Q ev)) x"
proof -
  from assms have "filter (\<lambda>e. Q e \<and> e \<noteq> x) ev = []" by simp
  then have "\<forall>e\<in>set (filter Q ev). e = x" by (auto simp: filter_empty_conv)
  then show ?thesis by (metis replicate_length_same)
qed

lemma page_requests_deletion [simp]:
  "filter deletion (page_requests (ListDataSources kb) r) = []"
  by (simp add: page_requests_def)

lemma list_data_sources_deletion:
  "list_data_sources w kb t = (r, t') \<Longrightarrow> filter deletion t' = filter deletion t"
  by (auto simp: list_data_sources_def Let_def split: option.splits if_splits)

lemma update_data_source_deletion_policy_deletion:
  "update_data_source_deletion_policy w kb ds t = (r, t')
     \<Longrightarrow> filter deletion t' = filter deletion t"
  by (auto simp: update_data_source_deletion_policy_def Let_def
      split: option.splits sum.splits if_splits)

lemma delete_data_source_attempts_others:
  "delete_data_source_attempts w kb ds m as t = (r, t')
     \<Longrightarrow> filter (\<lambda>e. deletion e \<and> e \<noteq> Call (DeleteDataSource kb ds)) t'
         = filter (\<lambda>e. deletion e \<and> e \<noteq> Call (DeleteDataSource kb ds)) t"
proof (induction as arbitrary: t)
  case Nil
  then show ?case by simp
next
  case (Cons a as)
  have u: "filter (\<lambda>e. deletion e \<and> e \<noteq> Call (DeleteDataSource kb ds)) t2
         = filter (\<lambda>e. deletion e \<and> e \<noteq> Call (DeleteDataSource kb ds)) t1"
    if "update_data_source_deletion_policy w kb ds t1 = (r1, t2)" for t1 r1 t2
    using update_data_source_deletion_policy_ext[OF that]
      update_data_source_deletion_policy_deletion[OF that]
    by (auto simp: filter_empty_conv)
  from Cons.prems show ?case
    by (auto simp: Let_def split: option.splits sum.splits if_splits prod.splits
        dest!: Cons.IH u)
qed

lemma delete_data_source_attempts_upper:
  "delete_data_source_attempts w kb ds m as t = (r, t')
     \<Longrightarrow> length (filter deletion t') \<le> length (filter deletion t) + length as"
  by (induction as arbitrary: t)
     (fastforce simp: Let_def split: option.splits sum.splits if_splits prod.splits
        dest!: update_data_source_deletion_policy_deletion)+

lemma delete_data_source_attempts_lower:
  "delete_data_source_attempts w kb ds m as t = (r, t') \<Longrightarrow> as \<noteq> []
     \<Longrightarrow> length (filter deletion t) < length (filter deletion t')"
proof (cases as)
  case Nil
  then show "as \<noteq> [] \<Longrightarrow> ?thesis" by simp
next
  case (Cons a rest)
  assume run: "delete_data_source_attempts w kb ds m as t = (r, t')"
  have g: "length (filter deletion t1) \<le> length (filter deletion t2)"
    if "delete_data_source_attempts w kb ds m rest t1 = (r, t2)" for t1 t2
    using delete_data_source_attempts_ext[OF that] by auto
  from run Cons show ?thesis
    by (auto simp: Let_def split: option.splits sum.splits if_splits prod.splits
        dest!: update_data_source_deletion_policy_deletion g)
qed

lemma delete_data_source_attempts_first:
  "\<forall>t'. api_delete_data_source w t' = None \<Longrightarrow>
   delete_data_source_attempts w kb ds m (a # as) t
     = (Inr True, t @ [Call (DeleteDataSource kb ds), Print ''    Deleted data source {}'' [S ds]])"
  by simp

lemma delete_data_source_deletions:
  assumes "delete_data_source w kb ds 3 t = (Inr b, t')"
  shows "\<exists>ev n. t' = t @ ev \<and> filter deletion ev = replicate n (Call (DeleteDataSource kb ds))
           \<and> 1 \<le> n \<and> n \<le> 3 \<and> ((\<forall>t'. api_delete_data_source w t' = None) \<longrightarrow> n = 1)"
proof -
  have as: "[0..3 - 1] = [0, 1, 2::int]" by (simp add: upto.simps)
  from assms have run: "delete_data_source_attempts w kb ds 3 [0, 1, 2] t = (Inr b, t')"
    by (simp only: delete_data_source_def as)
  from delete_data_source_attempts_ext[OF run] obtain ev where ev: "t' = t @ ev" by blast
  from only_these[OF ev delete_data_source_attempts_others[OF run]]
  have 1: "filter deletion ev = replicate (length (filter deletion ev)) (Call (DeleteDataSource kb ds))" .
  from delete_data_source_attempts_upper[OF run] delete_data_source_attempts_lower[OF run] ev
  have 2: "1 \<le> length (filter deletion ev)" "length (filter deletion ev) \<le> 3"
    by (simp_all add: Suc_le_eq)
  have 3: "length (filter deletion ev) = 1" if "\<forall>t'. api_delete_data_source w t' = None"
    using run ev delete_data_source_attempts_first[OF that, of kb ds 3 0 "[1, 2]" t] by simp
  from ev 1 2 3 show ?thesis by blast
qed


lemma delete_each_data_source_deletions:
  "delete_each_data_source w kb dss t = (Inr u, t')
     \<Longrightarrow> \<exists>ev ns. t' = t @ ev \<and> filter deletion ev = data_source_deletions kb ns dss
           \<and> length ns = length dss \<and> (\<forall>n\<in>set ns. 1 \<le> n \<and> n \<le> 3)
           \<and> ((\<forall>t'. api_delete_data_source w t' = None) \<longrightarrow> ns = replicate (length dss) 1)"
proof (induction dss arbitrary: t)
  case Nil
  then show ?case by (simp add: data_source_deletions_def)
next
  case (Cons ds dss)
  let ?t0 = "t @ [Print ''    Deleting data source: {} (ID: {})'' [S (ds_name ds), S (ds_id ds)]]"
  obtain r1 t1 where d: "delete_data_source w kb (ds_id ds) 3 ?t0 = (r1, t1)"
    by (cases "delete_data_source w kb (ds_id ds) 3 ?t0")
  with Cons.prems obtain b where r1: "r1 = Inr b" by (cases r1) auto
  let ?t2 = "if \<not> b then t1 @ [Print ''    Continuing despite data source deletion failure...'' []]
             else t1"
  from Cons.prems d r1 have rest: "delete_each_data_source w kb dss ?t2 = (Inr u, t')"
    by (auto split: if_splits)
  from delete_data_source_deletions[OF d[unfolded r1]]
  obtain ev1 n where 1: "t1 = ?t0 @ ev1"
      "filter deletion ev1 = replicate n (Call (DeleteDataSource kb (ds_id ds)))"
      "1 \<le> n" "n \<le> 3" "(\<forall>t'. api_delete_data_source w t' = None) \<longrightarrow> n = 1"
    by blast
  from Cons.IH[OF rest]
  obtain ev2 ns where 2: "t' = ?t2 @ ev2" "filter deletion ev2 = data_source_deletions kb ns dss"
      "length ns = length dss" "\<forall>n\<in>set ns. 1 \<le> n \<and> n \<le> 3"
      "(\<forall>t'. api_delete_data_source w t' = None) \<longrightarrow> ns = replicate (length dss) 1"
    by blast
  define ev where "ev = [Print ''    Deleting data source: {} (ID: {})'' [S (ds_name ds), S (ds_id ds)]]
      @ ev1 @ (if \<not> b then [Print ''    Continuing despite data source deletion failure...'' []]
               else []) @ ev2"
  have "t' = t @ ev" using 1(1) 2(1) by (simp add: ev_def)
  moreover have "filter deletion ev = data_source_deletions kb (n # ns) (ds # dss)"
    using 1(2) 2(2) by (simp add: ev_def data_source_deletions_def)
  moreover have "length (n # ns) = length (ds # dss)" using 2(3) by simp
  moreover have "\<forall>k\<in>set (n # ns). 1 \<le> k \<and> k \<le> 3" using 1(3,4) 2(4) by simp
  moreover have "(\<forall>t'. api_delete_data_source w t' = None)
      \<longrightarrow> n # ns = replicate (length (ds # dss)) 1"
    using 1(5) 2(5) by simp
  ultimately show ?case by blast
qed

lemma delete_each_data_source_returns:
  "\<forall>t'. api_delete_data_source w t' = None \<Longrightarrow> fst (delete_each_data_source w kb dss t) = Inr ()"
  by (induction dss arbitrary: t) (simp_all add: delete_data_source_def upto.simps)

lemma delete_knowledge_base_attempts_others:
  "delete_knowledge_base_attempts w kb name m as t = (r, t')
     \<Longrightarrow> filter (\<lambda>e. deletion e \<and> e \<noteq> Call (DeleteKnowledgeBase kb)) t'
         = filter (\<lambda>e. deletion e \<and> e \<noteq> Call (DeleteKnowledgeBase kb)) t"
  by (induction as arbitrary: t) (auto simp: Let_def split: option.splits if_splits)

lemma delete_knowledge_base_attempts_upper:
  "delete_knowledge_base_attempts w kb name m as t = (r, t')
     \<Longrightarrow> length (filter deletion t') \<le> length (filter deletion t) + length as"
  by (induction as arbitrary: t) (fastforce simp: Let_def split: option.splits if_splits)+

lemma delete_knowledge_base_attempts_lower:
  "delete_knowledge_base_attempts w kb name m as t = (r, t') \<Longrightarrow> as \<noteq> []
     \<Longrightarrow> length (filter deletion t) < length (filter deletion t')"
proof (cases as)
  case Nil
  then show "as \<noteq> [] \<Longrightarrow> ?thesis" by simp
next
  case (Cons a rest)
  assume run: "delete_knowledge_base_attempts w kb name m as t = (r, t')"
  have g: "length (filter deletion t1) \<le> length (filter deletion t2)"
    if "delete_knowledge_base_attempts w kb name m rest t1 = (r, t2)" for t1 t2
    using delete_knowledge_base_attempts_ext[OF that] by auto
  from run Cons show ?thesis
    by (auto simp: Let_def split: option.splits if_splits dest!: g)
qed

lemma delete_knowledge_base_attempts_deletions:
  assumes run: "delete_knowledge_base_attempts w kb name m [0..m - 1] t = (Inr b, t')" and m: "0 < m"
  shows "\<exists>ev k. t' = t @ ev \<and> filter deletion ev = replicate k (Call (DeleteKnowledgeBase kb))
           \<and> 1 \<le> k \<and> int k \<le> m \<and> ((\<forall>t'. api_delete_knowledge_base w t' = None) \<longrightarrow> k = 1 \<and> b)"
proof -
  from m have ne: "[0..m - 1] \<noteq> []" and len: "length [0..m - 1] = nat m" by simp_all
  from delete_knowledge_base_attempts_ext[OF run] obtain ev where ev: "t' = t @ ev" by blast
  from only_these[OF ev delete_knowledge_base_attempts_others[OF run]]
  have 1: "filter deletion ev = replicate (length (filter deletion ev)) (Call (DeleteKnowledgeBase kb))" .
  from delete_knowledge_base_attempts_upper[OF run] delete_knowledge_base_attempts_lower[OF run ne]
    ev len m
  have 2: "1 \<le> length (filter deletion ev)" "int (length (filter deletion ev)) \<le> m"
    by (simp_all add: Suc_le_eq)
  have 3: "length (filter deletion ev) = 1 \<and> b" if "\<forall>t'. api_delete_knowledge_base w t' = None"
  proof -
    from ne obtain a as where "[0..m - 1] = a # as" by (cases "[0..m - 1]") auto
    with run ev that show ?thesis by auto
  qed
  from ev 1 2 3 show ?thesis by blast
qed

lemma delete_knowledge_base_deletions:
  assumes dr: "\<not> dry_run self" and m: "0 < m"
    and ls: "list_data_sources w kb (t @ [Print ''Deleting Knowledge Base: {} (ID: {})'' [S name, S kb]])
          = (Inr dss, t1)"
    and run: "delete_knowledge_base w self kb name m t = (Inr b, t')"
  shows "\<exists>ev ns k. t' = t @ ev
           \<and> filter deletion ev = data_source_deletions kb ns dss @ replicate k (Call (DeleteKnowledgeBase kb))
           \<and> length ns = length dss \<and> (\<forall>n\<in>set ns. 1 \<le> n \<and> n \<le> 3) \<and> 1 \<le> k \<and> int k \<le> m
           \<and> ((\<forall>t'. api_delete_data_source w t' = None) \<longrightarrow> ns = replicate (length dss) 1)
           \<and> ((\<forall>t'. api_delete_knowledge_base w t' = None) \<longrightarrow> k = 1 \<and> b)"
proof -
  let ?t0 = "t @ [Print ''Deleting Knowledge Base: {} (ID: {})'' [S name, S kb]]"
  from list_data_sources_ext[OF ls] obtain ev0 where ev0: "t1 = ?t0 @ ev0" by blast
  from list_data_sources_deletion[OF ls] ev0 have q0: "filter deletion ev0 = []" by simp
  let ?found = "Print ''  Found {} data sources to delete first'' [N (int (length dss))]"
  let ?wait = "[Print ''    Waiting for data source deletions to complete...'' [], Sleep 5000]"
  obtain t2 where each: "if dss \<noteq> [] then delete_each_data_source w kb dss (t1 @ [?found]) = (Inr (), t2)
      else t2 = t1"
    and att: "delete_knowledge_base_attempts w kb name m [0..m - 1]
        (if dss \<noteq> [] then t2 @ ?wait else t2) = (Inr b, t')"
    using run dr ls by (auto simp: delete_knowledge_base_def split: prod.splits sum.splits if_splits)
  have "\<exists>ev1 ns. t2 = t1 @ ev1 \<and> filter deletion ev1 = data_source_deletions kb ns dss
           \<and> length ns = length dss \<and> (\<forall>n\<in>set ns. 1 \<le> n \<and> n \<le> 3)
           \<and> ((\<forall>t'. api_delete_data_source w t' = None) \<longrightarrow> ns = replicate (length dss) 1)"
  proof (cases "dss = []")
    case True
    with each show ?thesis by (simp add: data_source_deletions_def)
  next
    case False
    with each have "delete_each_data_source w kb dss (t1 @ [?found]) = (Inr (), t2)" by simp
    from delete_each_data_source_deletions[OF this]
    obtain ev ns where "t2 = (t1 @ [?found]) @ ev" "filter deletion ev = data_source_deletions kb ns dss"
      "length ns = length dss" "\<forall>n\<in>set ns. 1 \<le> n \<and> n \<le> 3"
      "(\<forall>t'. api_delete_data_source w t' = None) \<longrightarrow> ns = replicate (length dss) 1"
      by blast
    then have "t2 = t1 @ (?found # ev) \<and> filter deletion (?found # ev) = data_source_deletions kb ns dss
        \<and> length ns = length dss \<and> (\<forall>n\<in>set ns. 1 \<le> n \<and> n \<le> 3)
        \<and> ((\<forall>t'. api_delete_data_source w t' = None) \<longrightarrow> ns = replicate (length dss) 1)"
      by simp
    then show ?thesis by blast
  qed
  then obtain ev1 ns where 1: "t2 = t1 @ ev1" "filter deletion ev1 = data_source_deletions kb ns dss"
      "length ns = length dss" "\<forall>n\<in>set ns. 1 \<le> n \<and> n \<le> 3"
      "(\<forall>t'. api_delete_data_source w t' = None) \<longrightarrow> ns = replicate (length dss) 1"
    by blast
  from delete_knowledge_base_attempts_deletions[OF att m]
  obtain ev2 k where 2: "t' = (if dss \<noteq> [] then t2 @ ?wait else t2) @ ev2"
      "filter deletion ev2 = replicate k (Call (DeleteKnowledgeBase kb))" "1 \<le> k" "int k \<le> m"
      "(\<forall>t'. api_delete_knowledge_base w t' = None) \<longrightarrow> k = 1 \<and> b"
    by blast
  define ev where "ev = [Print ''Deleting Knowledge Base: {} (ID: {})'' [S name, S kb]] @ ev0 @ ev1
      @ (if dss \<noteq> [] then ?wait else []) @ ev2"
  have "t' = t @ ev" using ev0 1(1) 2(1) by (simp add: ev_def)
  moreover have "filter deletion ev
      = data_source_deletions kb ns dss @ replicate k (Call (DeleteKnowledgeBase kb))"
    using q0 1(2) 2(2) by (simp add: ev_def)
  ultimately show ?thesis using 1(3,4,5) 2(3,4,5) by blast
qed

lemma delete_knowledge_base_returns:
  assumes dr: "\<not> dry_run self" and m: "0 < m"
    and ls: "list_data_sources w kb (t @ [Print ''Deleting Knowledge Base: {} (ID: {})'' [S name, S kb]])
          = (Inr dss, t1)"
    and ok: "\<forall>t'. api_delete_data_source w t' = None" "\<forall>t'. api_delete_knowledge_base w t' = None"
  shows "fst (delete_knowledge_base w self kb name m t) = Inr True"
proof -
  from m obtain a as where as: "[0..m - 1] = a # as" by (cases "[0..m - 1]") auto
  let ?found = "Print ''  Found {} data sources to delete first'' [N (int (length dss))]"
  obtain t2 where "delete_each_data_source w kb dss (t1 @ [?found]) = (Inr (), t2)"
    using delete_each_data_source_returns[OF ok(1), of kb dss "t1 @ [?found]"]
    by (metis prod.collapse)
  then show ?thesis
    using dr ls ok(2) by (simp add: delete_knowledge_base_def as)
qed


text \<open>version 2\<close>

lemma debug_print_filter [simp]:
  "\<not> Q (Print (''[DEBUG] '' @ m) as) \<Longrightarrow> filter Q (debug_print self m as t) = filter Q t"
  by (simp add: debug_print_def)

lemma list_data_sources_with_timeout_deletion:
  "list_data_sources_with_timeout w self kb t = (r, t') \<Longrightarrow> filter deletion t' = filter deletion t"
  by (auto simp: list_data_sources_with_timeout_def Let_def split: option.splits if_splits)

lemma update_with_timeout_deletion:
  "update_data_source_deletion_policy_with_timeout w self kb ds t = (r, t')
     \<Longrightarrow> filter deletion t' = filter deletion t"
  by (auto simp: update_data_source_deletion_policy_with_timeout_def update_failed_def Let_def
      split: option.splits sum.splits if_splits)

lemma delete_data_source_attempts_v2_others:
  "delete_data_source_attempts_v2 w self kb ds m as t = (r, t')
     \<Longrightarrow> filter (\<lambda>e. deletion e \<and> e \<noteq> Call (DeleteDataSource kb ds)) t'
         = filter (\<lambda>e. deletion e \<and> e \<noteq> Call (DeleteDataSource kb ds)) t"
proof (induction as arbitrary: t)
  case Nil
  then show ?case by simp
next
  case (Cons a as)
  have u: "filter (\<lambda>e. deletion e \<and> e \<noteq> Call (DeleteDataSource kb ds)) t2
         = filter (\<lambda>e. deletion e \<and> e \<noteq> Call (DeleteDataSource kb ds)) t1"
    if "update_data_source_deletion_policy_with_timeout w self kb ds t1 = (r1, t2)" for t1 r1 t2
    using update_with_timeout_ext[OF that]
      update_with_timeout_deletion[OF that]
    by (auto simp: filter_empty_conv)
  from Cons.prems show ?case
    by (auto simp: Let_def split: option.splits sum.splits if_splits prod.splits
        dest!: Cons.IH u)
qed

lemma delete_data_source_attempts_v2_upper:
  "delete_data_source_attempts_v2 w self kb ds m as t = (r, t')
     \<Longrightarrow> length (filter deletion t') \<le> length (filter deletion t) + length as"
  by (induction as arbitrary: t)
     (fastforce simp: Let_def split: option.splits sum.splits if_splits prod.splits
        dest!: update_with_timeout_deletion)+

lemma delete_data_source_attempts_v2_lower:
  "delete_data_source_attempts_v2 w self kb ds m as t = (r, t') \<Longrightarrow> as \<noteq> []
     \<Longrightarrow> length (filter deletion t) < length (filter deletion t')"
proof (cases as)
  case Nil
  then show "as \<noteq> [] \<Longrightarrow> ?thesis" by simp
next
  case (Cons a rest)
  assume run: "delete_data_source_attempts_v2 w self kb ds m as t = (r, t')"
  have g: "length (filter deletion t1) \<le> length (filter deletion t2)"
    if "delete_data_source_attempts_v2 w self kb ds m rest t1 = (r, t2)" for t1 t2
    using delete_data_source_attempts_v2_ext[OF that] by auto
  from run Cons show ?thesis
    by (auto simp: Let_def split: option.splits sum.splits if_splits prod.splits
        dest!: update_with_timeout_deletion g)
qed

lemma delete_data_source_attempts_v2_first:
  "\<forall>t'. api_delete_data_source w t' = None \<Longrightarrow>
   delete_data_source_attempts_v2 w self kb ds m (a # as) t
     = (Inr True,
        debug_print self ''Attempting to delete data source {}, attempt {}'' [S ds, N (a + 1)] t
        @ [Call (DeleteDataSource kb ds), Print ''    Deleted data source {}'' [S ds]])"
  by simp

lemma delete_data_source_with_timeout_deletions:
  assumes "delete_data_source_with_timeout w self kb ds 3 t = (Inr b, t')"
  shows "\<exists>ev n. t' = t @ ev \<and> filter deletion ev = replicate n (Call (DeleteDataSource kb ds))
           \<and> 1 \<le> n \<and> n \<le> 3 \<and> ((\<forall>t'. api_delete_data_source w t' = None) \<longrightarrow> n = 1)"
proof -
  have as: "[0..3 - 1] = [0, 1, 2::int]" by (simp add: upto.simps)
  from assms have run: "delete_data_source_attempts_v2 w self kb ds 3 [0, 1, 2] t = (Inr b, t')"
    by (simp only: delete_data_source_with_timeout_def as)
  from delete_data_source_attempts_v2_ext[OF run] obtain ev where ev: "t' = t @ ev" by blast
  from only_these[OF ev delete_data_source_attempts_v2_others[OF run]]
  have 1: "filter deletion ev = replicate (length (filter deletion ev)) (Call (DeleteDataSource kb ds))" .
  from delete_data_source_attempts_v2_upper[OF run] delete_data_source_attempts_v2_lower[OF run] ev
  have 2: "1 \<le> length (filter deletion ev)" "length (filter deletion ev) \<le> 3"
    by (simp_all add: Suc_le_eq)
  have 3: "length (filter deletion ev) = 1" if "\<forall>t'. api_delete_data_source w t' = None"
  proof -
    from run delete_data_source_attempts_v2_first[OF that, of self kb ds 3 0 "[1, 2]" t]
    have "filter deletion t' = filter deletion t @ [Call (DeleteDataSource kb ds)]" by simp
    with ev show ?thesis by simp
  qed
  from ev 1 2 3 show ?thesis by blast
qed


lemma delete_each_data_source_v2_deletions:
  "delete_each_data_source_v2 w self kb dss t = (Inr u, t')
     \<Longrightarrow> \<exists>ev ns. t' = t @ ev \<and> filter deletion ev = data_source_deletions kb ns dss
           \<and> length ns = length dss \<and> (\<forall>n\<in>set ns. 1 \<le> n \<and> n \<le> 3)
           \<and> ((\<forall>t'. api_delete_data_source w t' = None) \<longrightarrow> ns = replicate (length dss) 1)"
proof (induction dss arbitrary: t)
  case Nil
  then show ?case by (simp add: data_source_deletions_def)
next
  case (Cons ds dss)
  let ?t0 = "t @ [Print ''    Deleting data source: {} (ID: {})'' [S (ds_name ds), S (ds_id ds)]]"
  obtain r1 t1 where d: "delete_data_source_with_timeout w self kb (ds_id ds) 3 ?t0 = (r1, t1)"
    by (cases "delete_data_source_with_timeout w self kb (ds_id ds) 3 ?t0")
  with Cons.prems obtain b where r1: "r1 = Inr b" by (cases r1) auto
  let ?t2 = "if \<not> b then t1 @ [Print ''    Continuing despite data source deletion failure...'' []]
             else t1"
  from Cons.prems d r1 have rest: "delete_each_data_source_v2 w self kb dss ?t2 = (Inr u, t')"
    by (auto split: if_splits)
  from delete_data_source_with_timeout_deletions[OF d[unfolded r1]]
  obtain ev1 n where 1: "t1 = ?t0 @ ev1"
      "filter deletion ev1 = replicate n (Call (DeleteDataSource kb (ds_id ds)))"
      "1 \<le> n" "n \<le> 3" "(\<forall>t'. api_delete_data_source w t' = None) \<longrightarrow> n = 1"
    by blast
  from Cons.IH[OF rest]
  obtain ev2 ns where 2: "t' = ?t2 @ ev2" "filter deletion ev2 = data_source_deletions kb ns dss"
      "length ns = length dss" "\<forall>n\<in>set ns. 1 \<le> n \<and> n \<le> 3"
      "(\<forall>t'. api_delete_data_source w t' = None) \<longrightarrow> ns = replicate (length dss) 1"
    by blast
  define ev where "ev = [Print ''    Deleting data source: {} (ID: {})'' [S (ds_name ds), S (ds_id ds)]]
      @ ev1 @ (if \<not> b then [Print ''    Continuing despite data source deletion failure...'' []]
               else []) @ ev2"
  have "t' = t @ ev" using 1(1) 2(1) by (simp add: ev_def)
  moreover have "filter deletion ev = data_source_deletions kb (n # ns) (ds # dss)"
    using 1(2) 2(2) by (simp add: ev_def data_source_deletions_def)
  moreover have "length (n # ns) = length (ds # dss)" using 2(3) by simp
  moreover have "\<forall>k\<in>set (n # ns). 1 \<le> k \<and> k \<le> 3" using 1(3,4) 2(4) by simp
  moreover have "(\<forall>t'. api_delete_data_source w t' = None)
      \<longrightarrow> n # ns = replicate (length (ds # dss)) 1"
    using 1(5) 2(5) by simp
  ultimately show ?case by blast
qed

lemma delete_each_data_source_v2_returns:
  "\<forall>t'. api_delete_data_source w t' = None \<Longrightarrow> fst (delete_each_data_source_v2 w self kb dss t) = Inr ()"
  by (induction dss arbitrary: t) (simp_all add: delete_data_source_with_timeout_def upto.simps)

lemma delete_knowledge_base_attempts_v2_others:
  "delete_knowledge_base_attempts_v2 w self kb name m as t = (r, t')
     \<Longrightarrow> filter (\<lambda>e. deletion e \<and> e \<noteq> Call (DeleteKnowledgeBase kb)) t'
         = filter (\<lambda>e. deletion e \<and> e \<noteq> Call (DeleteKnowledgeBase kb)) t"
  by (induction as arbitrary: t) (auto simp: Let_def split: option.splits if_splits)

lemma delete_knowledge_base_attempts_v2_upper:
  "delete_knowledge_base_attempts_v2 w self kb name m as t = (r, t')
     \<Longrightarrow> length (filter deletion t') \<le> length (filter deletion t) + length as"
  by (induction as arbitrary: t) (fastforce simp: Let_def split: option.splits if_splits)+

lemma delete_knowledge_base_attempts_v2_lower:
  "delete_knowledge_base_attempts_v2 w self kb name m as t = (r, t') \<Longrightarrow> as \<noteq> []
     \<Longrightarrow> length (filter deletion t) < length (filter deletion t')"
proof (cases as)
  case Nil
  then show "as \<noteq> [] \<Longrightarrow> ?thesis" by simp
next
  case (Cons a rest)
  assume run: "delete_knowledge_base_attempts_v2 w self kb name m as t = (r, t')"
  have g: "length (filter deletion t1) \<le> length (filter deletion t2)"
    if "delete_knowledge_base_attempts_v2 w self kb name m rest t1 = (r, t2)" for t1 t2
    using delete_knowledge_base_attempts_v2_ext[OF that] by auto
  from run Cons show ?thesis
    by (auto simp: Let_def split: option.splits if_splits dest!: g)
qed

lemma delete_knowledge_base_attempts_v2_deletions:
  assumes run: "delete_knowledge_base_attempts_v2 w self kb name m [0..m - 1] t = (Inr b, t')" and m: "0 < m"
  shows "\<exists>ev k. t' = t @ ev \<and> filter deletion ev = replicate k (Call (DeleteKnowledgeBase kb))
           \<and> 1 \<le> k \<and> int k \<le> m \<and> ((\<forall>t'. api_delete_knowledge_base w t' = None) \<longrightarrow> k = 1 \<and> b)"
proof -
  from m have ne: "[0..m - 1] \<noteq> []" and len: "length [0..m - 1] = nat m" by simp_all
  from delete_knowledge_base_attempts_v2_ext[OF run] obtain ev where ev: "t' = t @ ev" by blast
  from only_these[OF ev delete_knowledge_base_attempts_v2_others[OF run]]
  have 1: "filter deletion ev = replicate (length (filter deletion ev)) (Call (DeleteKnowledgeBase kb))" .
  from delete_knowledge_base_attempts_v2_upper[OF run] delete_knowledge_base_attempts_v2_lower[OF run ne]
    ev len m
  have 2: "1 \<le> length (filter deletion ev)" "int (length (filter deletion ev)) \<le> m"
    by (simp_all add: Suc_le_eq)
  have 3: "length (filter deletion ev) = 1 \<and> b" if "\<forall>t'. api_delete_knowledge_base w t' = None"
  proof -
    from ne obtain a as where "[0..m - 1] = a # as" by (cases "[0..m - 1]") auto
    with run that have "filter deletion t' = filter deletion t @ [Call (DeleteKnowledgeBase kb)] \<and> b"
      by auto
    with ev show ?thesis by simp
  qed
  from ev 1 2 3 show ?thesis by blast
qed

lemma delete_knowledge_base_with_timeout_deletions:
  assumes dr: "\<not> dry_run self" and m: "0 < m"
    and ls: "list_data_sources_with_timeout w self kb (t @ [Print ''Deleting Knowledge Base: {} (ID: {})'' [S name, S kb]])
          = (Inr dss, t1)"
    and run: "delete_knowledge_base_with_timeout w self kb name m t = (Inr b, t')"
  shows "\<exists>ev ns k. t' = t @ ev
           \<and> filter deletion ev = data_source_deletions kb ns dss @ replicate k (Call (DeleteKnowledgeBase kb))
           \<and> length ns = length dss \<and> (\<forall>n\<in>set ns. 1 \<le> n \<and> n \<le> 3) \<and> 1 \<le> k \<and> int k \<le> m
           \<and> ((\<forall>t'. api_delete_data_source w t' = None) \<longrightarrow> ns = replicate (length dss) 1)
           \<and> ((\<forall>t'. api_delete_knowledge_base w t' = None) \<longrightarrow> k = 1 \<and> b)"
proof -
  let ?t0 = "t @ [Print ''Deleting Knowledge Base: {} (ID: {})'' [S name, S kb]]"
  from list_data_sources_with_timeout_ext[OF ls] obtain ev0 where ev0: "t1 = ?t0 @ ev0" by blast
  from list_data_sources_with_timeout_deletion[OF ls] ev0 have q0: "filter deletion ev0 = []" by simp
  let ?found = "Print ''  Found {} data sources to delete first'' [N (int (length dss))]"
  let ?wait = "[Print ''    Waiting for data source deletions to complete...'' [], Sleep 8000]"
  obtain t2 where each: "if dss \<noteq> [] then delete_each_data_source_v2 w self kb dss (t1 @ [?found]) = (Inr (), t2)
      else t2 = t1"
    and att: "delete_knowledge_base_attempts_v2 w self kb name m [0..m - 1]
        (if dss \<noteq> [] then t2 @ ?wait else t2) = (Inr b, t')"
    using run dr ls by (auto simp: delete_knowledge_base_with_timeout_def split: prod.splits sum.splits if_splits)
  have "\<exists>ev1 ns. t2 = t1 @ ev1 \<and> filter deletion ev1 = data_source_deletions kb ns dss
           \<and> length ns = length dss \<and> (\<forall>n\<in>set ns. 1 \<le> n \<and> n \<le> 3)
           \<and> ((\<forall>t'. api_delete_data_source w t' = None) \<longrightarrow> ns = replicate (length dss) 1)"
  proof (cases "dss = []")
    case True
    with each show ?thesis by (simp add: data_source_deletions_def)
  next
    case False
    with each have "delete_each_data_source_v2 w self kb dss (t1 @ [?found]) = (Inr (), t2)" by simp
    from delete_each_data_source_v2_deletions[OF this]
    obtain ev ns where "t2 = (t1 @ [?found]) @ ev" "filter deletion ev = data_source_deletions kb ns dss"
      "length ns = length dss" "\<forall>n\<in>set ns. 1 \<le> n \<and> n \<le> 3"
      "(\<forall>t'. api_delete_data_source w t' = None) \<longrightarrow> ns = replicate (length dss) 1"
      by blast
    then have "t2 = t1 @ (?found # ev) \<and> filter deletion (?found # ev) = data_source_deletions kb ns dss
        \<and> length ns = length dss \<and> (\<forall>n\<in>set ns. 1 \<le> n \<and> n \<le> 3)
        \<and> ((\<forall>t'. api_delete_data_source w t' = None) \<longrightarrow> ns = replicate (length dss) 1)"
      by simp
    then show ?thesis by blast
  qed
  then obtain ev1 ns where 1: "t2 = t1 @ ev1" "filter deletion ev1 = data_source_deletions kb ns dss"
      "length ns = length dss" "\<forall>n\<in>set ns. 1 \<le> n \<and> n \<le> 3"
      "(\<forall>t'. api_delete_data_source w t' = None) \<longrightarrow> ns = replicate (length dss) 1"
    by blast
  from delete_knowledge_base_attempts_v2_deletions[OF att m]
  obtain ev2 k where 2: "t' = (if dss \<noteq> [] then t2 @ ?wait else t2) @ ev2"
      "filter deletion ev2 = replicate k (Call (DeleteKnowledgeBase kb))" "1 \<le> k" "int k \<le> m"
      "(\<forall>t'. api_delete_knowledge_base w t' = None) \<longrightarrow> k = 1 \<and> b"
    by blast
  define ev where "ev = [Print ''Deleting Knowledge Base: {} (ID: {})'' [S name, S kb]] @ ev0 @ ev1
      @ (if dss \<noteq> [] then ?wait else []) @ ev2"
  have "t' = t @ ev" using ev0 1(1) 2(1) by (simp add: ev_def)
  moreover have "filter deletion ev
      = data_source_deletions kb ns dss @ replicate k (Call (DeleteKnowledgeBase kb))"
    using q0 1(2) 2(2) by (simp add: ev_def)
  ultimately show ?thesis using 1(3,4,5) 2(3,4,5) by blast
qed

lemma delete_knowledge_base_with_timeout_returns:
  assumes dr: "\<not> dry_run self" and m: "0 < m"
    and ls: "list_data_sources_with_timeout w self kb (t @ [Print ''Deleting Knowledge Base: {} (ID: {})'' [S name, S kb]])
          = (Inr dss, t1)"
    and ok: "\<forall>t'. api_delete_data_source w t' = None" "\<forall>t'. api_delete_knowledge_base w t' = None"
  shows "fst (delete_knowledge_base_with_timeout w self kb name m t) = Inr True"
proof -
  from m obtain a as where as: "[0..m - 1] = a # as" by (cases "[0..m - 1]") auto
  let ?found = "Print ''  Found {} data sources to delete first'' [N (int (length dss))]"
  obtain t2 where "delete_each_data_source_v2 w self kb dss (t1 @ [?found]) = (Inr (), t2)"
    using delete_each_data_source_v2_returns[OF ok(1), of self kb dss "t1 @ [?found]"]
    by (metis prod.collapse)
  then show ?thesis
    using dr ls ok(2) by (simp add: delete_knowledge_base_with_timeout_def as)
qed


section \<open>Dry run\<close>

text \<open>
  C3. In dry-run mode a full run of \<open>delete_all_knowledge_bases\<close>, of either version,
  adds no mutating call (no update and no delete; the cleaners have no create call) to
  the trace, whatever the world enumerates and answers.
\<close>

theorem dry_run_issues_no_mutating_call:
  "(dry_run self \<longrightarrow>
      (\<exists>ev. snd (delete_all_knowledge_bases w self confirm t) = t @ ev \<and> filter mutating ev = []))
   \<and> (dry_run self2 \<longrightarrow>
      (\<exists>ev. snd (delete_all_knowledge_bases_v2 w self2 confirm batch_size t) = t @ ev
         \<and> filter mutating ev = []))"
proof (intro conjI impI)
  assume dr: "dry_run self"
  obtain r t' where run: "delete_all_knowledge_bases w self confirm t = (r, t')"
    by (cases "delete_all_knowledge_bases w self confirm t")
  from delete_all_knowledge_bases_ext[OF run] obtain ev where ev: "t' = t @ ev" by blast
  from delete_all_knowledge_bases_dry_run[OF run dr] ev have "filter mutating ev = []" by simp
  with run ev show "\<exists>ev. snd (delete_all_knowledge_bases w self confirm t) = t @ ev
      \<and> filter mutating ev = []" by simp
next
  assume dr: "dry_run self2"
  obtain r t' where run: "delete_all_knowledge_bases_v2 w self2 confirm batch_size t = (r, t')"
    by (cases "delete_all_knowledge_bases_v2 w self2 confirm batch_size t")
  from delete_all_knowledge_bases_v2_ext[OF run] obtain ev where ev: "t' = t @ ev" by blast
  from delete_all_knowledge_bases_v2_dry_run[OF run dr] ev have "filter mutating ev = []" by simp
  with run ev show "\<exists>ev. snd (delete_all_knowledge_bases_v2 w self2 confirm batch_size t) = t @ ev
      \<and> filter mutating ev = []" by simp
qed

theorem dry_run_issues_no_mutating_call_witness:
  "dry_run (cleaner_v1 True)
   \<and> (\<exists>ev. snd (delete_all_knowledge_bases (calm ''DELETE'') (cleaner_v1 True) False []) = [] @ ev
         \<and> filter mutating ev = [])
   \<and> dry_run (cleaner_v2 True)
   \<and> (\<exists>ev. snd (delete_all_knowledge_bases_v2 (calm ''DELETE'') (cleaner_v2 True) False 5 []) = [] @ ev
         \<and> filter mutating ev = [])"
  using dry_run_issues_no_mutating_call
    [of "cleaner_v1 True" "calm ''DELETE''" False "[]" "cleaner_v2 True" 5]
  by (simp add: cleaner_v1_def cleaner_v2_def)

section \<open>Confirmation\<close>

lemma delete_all_knowledge_bases_cancelled:
  assumes "\<not> dry_run self" "\<not> confirm" "\<forall>t'. user_input w t' = Inr response"
    "response \<noteq> ''DELETE''"
  shows "filter mutating (snd (delete_all_knowledge_bases w self confirm t)) = filter mutating t"
    and "fst (delete_all_knowledge_bases w self confirm t) =
           (case fst (list_knowledge_bases w self t) of Inl e \<Rightarrow> Inl e | Inr kbs \<Rightarrow> Inr ())"
  using assms
  by (auto simp: delete_all_knowledge_bases_def Let_def split: prod.splits sum.splits
      dest!: list_knowledge_bases_mutating)

lemma delete_all_knowledge_bases_v2_cancelled:
  assumes "\<not> dry_run self" "\<not> confirm" "\<forall>t'. user_input w t' = Inr response"
    "response \<noteq> ''DELETE''"
  shows "filter mutating (snd (delete_all_knowledge_bases_v2 w self confirm bsz t)) = filter mutating t"
    and "fst (delete_all_knowledge_bases_v2 w self confirm bsz t) =
           (case fst (list_knowledge_bases_v2 w self t) of Inl e \<Rightarrow> Inl e | Inr kbs \<Rightarrow> Inr ())"
  using assms
  by (auto simp: delete_all_knowledge_bases_v2_def Let_def split: prod.splits sum.splits
      dest!: list_knowledge_bases_v2_mutating)

text \<open>
  C4. With dry run off and no confirm flag, a prompt answered with anything but
  \<open>DELETE\<close> ends \<open>delete_all_knowledge_bases\<close>, of either version, with no mutating call
  added to the trace; the function returns normally whenever the listing did.
\<close>

theorem unconfirmed_run_issues_no_mutating_call:
  "(\<not> dry_run self \<longrightarrow> \<not> confirm \<longrightarrow> (\<forall>t'. user_input w t' = Inr response) \<longrightarrow>
      response \<noteq> ''DELETE'' \<longrightarrow>
      (\<exists>ev. snd (delete_all_knowledge_bases w self confirm t) = t @ ev \<and> filter mutating ev = [])
      \<and> fst (delete_all_knowledge_bases w self confirm t) =
          (case fst (list_knowledge_bases w self t) of Inl e \<Rightarrow> Inl e | Inr kbs \<Rightarrow> Inr ()))
   \<and> (\<not> dry_run self2 \<longrightarrow> \<not> confirm \<longrightarrow> (\<forall>t'. user_input w t' = Inr response) \<longrightarrow>
      response \<noteq> ''DELETE'' \<longrightarrow>
      (\<exists>ev. snd (delete_all_knowledge_bases_v2 w self2 confirm batch_size t) = t @ ev
         \<and> filter mutating ev = [])
      \<and> fst (delete_all_knowledge_bases_v2 w self2 confirm batch_size t) =
          (case fst (list_knowledge_bases_v2 w self2 t) of Inl e \<Rightarrow> Inl e | Inr kbs \<Rightarrow> Inr ()))"
proof (intro conjI impI)
  assume a: "\<not> dry_run self" "\<not> confirm" "\<forall>t'. user_input w t' = Inr response"
    "response \<noteq> ''DELETE''"
  obtain ev where "snd (delete_all_knowledge_bases w self confirm t) = t @ ev"
    using delete_all_knowledge_bases_ext[of w self confirm t] by (metis prod.collapse)
  with delete_all_knowledge_bases_cancelled(1)[OF a, of t]
  show "\<exists>ev. snd (delete_all_knowledge_bases w self confirm t) = t @ ev \<and> filter mutating ev = []"
    by simp
  show "fst (delete_all_knowledge_bases w self confirm t) =
          (case fst (list_knowledge_bases w self t) of Inl e \<Rightarrow> Inl e | Inr kbs \<Rightarrow> Inr ())"
    by (rule delete_all_knowledge_bases_cancelled(2)[OF a])
next
  assume a: "\<not> dry_run self2" "\<not> confirm" "\<forall>t'. user_input w t' = Inr response"
    "response \<noteq> ''DELETE''"
  obtain ev where "snd (delete_all_knowledge_bases_v2 w self2 confirm batch_size t) = t @ ev"
    using delete_all_knowledge_bases_v2_ext[of w self2 confirm batch_size t] by (metis prod.collapse)
  with delete_all_knowledge_bases_v2_cancelled(1)[OF a, of batch_size t]
  show "\<exists>ev. snd (delete_all_knowledge_bases_v2 w self2 confirm batch_size t) = t @ ev
      \<and> filter mutating ev = []"
    by simp
  show "fst (delete_all_knowledge_bases_v2 w self2 confirm batch_size t) =
          (case fst (list_knowledge_bases_v2 w self2 t) of Inl e \<Rightarrow> Inl e | Inr kbs \<Rightarrow> Inr ())"
    by (rule delete_all_knowledge_bases_v2_cancelled(2)[OF a])
qed

theorem unconfirmed_run_issues_no_mutating_call_witness:
  "\<not> dry_run (cleaner_v1 False) \<and> \<not> False \<and> (\<forall>t'. user_input (calm ''delete'') t' = Inr ''delete'')
   \<and> ''delete'' \<noteq> ''DELETE''
   \<and> (\<exists>ev. snd (delete_all_knowledge_bases (calm ''delete'') (cleaner_v1 False) False []) = [] @ ev
         \<and> filter mutating ev = [])
   \<and> fst (delete_all_knowledge_bases (calm ''delete'') (cleaner_v1 False) False []) = Inr ()
   \<and> \<not> dry_run (cleaner_v2 False)
   \<and> (\<exists>ev. snd (delete_all_knowledge_bases_v2 (calm ''delete'') (cleaner_v2 False) False 5 []) = [] @ ev
         \<and> filter mutating ev = [])
   \<and> fst (delete_all_knowledge_bases_v2 (calm ''delete'') (cleaner_v2 False) False 5 []) = Inr ()"
proof -
  have u: "\<forall>t'. user_input (calm ''delete'') t' = Inr ''delete''"
    by (simp add: calm_def)
  have l1: "fst (list_knowledge_bases (calm ''delete'') (cleaner_v1 False) []) = Inr
      [\<lparr>kb_id = ''KB1'', kb_name = ''first'', kb_status = ''ACTIVE''\<rparr>,
       \<lparr>kb_id = ''KB2'', kb_name = ''second'', kb_status = ''ACTIVE''\<rparr>]"
    by (simp add: list_knowledge_bases_def calm_def)
  have l2: "fst (list_knowledge_bases_v2 (calm ''delete'') (cleaner_v2 False) []) = Inr
      [\<lparr>kb_id = ''KB1'', kb_name = ''first'', kb_status = ''ACTIVE''\<rparr>,
       \<lparr>kb_id = ''KB2'', kb_name = ''second'', kb_status = ''ACTIVE''\<rparr>]"
    by (simp add: list_knowledge_bases_v2_def calm_def)
  show ?thesis
    using unconfirmed_run_issues_no_mutating_call
      [of "cleaner_v1 False" False "calm ''delete''" "''delete''" "[]" "cleaner_v2 False" 5]
      u l1 l2
    by (simp add: cleaner_v1_def cleaner_v2_def)
qed


section \<open>Summary counts\<close>

text \<open>
  C5. A run of \<open>delete_all_knowledge_bases\<close>, of either version, that returns normally
  over \<open>N\<close> enumerated knowledge bases prints either no counter at all (nothing was
  enumerated, or the user did not confirm) or exactly one line \<open>Successful\<close> and one line
  \<open>Failed\<close>, whose two counters are not negative and add up to \<open>N\<close>.
\<close>

theorem summary_counts_add_up:
  "(fst (delete_all_knowledge_bases w self confirm t) = Inr () \<longrightarrow>
    fst (list_knowledge_bases w self t) = Inr kbs \<longrightarrow>
      (\<exists>ev. snd (delete_all_knowledge_bases w self confirm t) = t @ ev \<and>
         (((kbs = [] \<or> Print ''Operation cancelled.'' [] \<in> set ev \<and> \<not> dry_run self \<and> \<not> confirm
               \<and> (\<exists>t'. user_input w t' \<noteq> Inr ''DELETE''))
           \<and> filter summary_line ev = [])
          \<or> (\<exists>s f. filter summary_line ev
                      = [Print ''  Successful: {}'' [N s], Print ''  Failed: {}'' [N f]]
                 \<and> s + f = int (length kbs) \<and> 0 \<le> s \<and> 0 \<le> f))))
   \<and> (fst (delete_all_knowledge_bases_v2 w self2 confirm batch_size t) = Inr () \<longrightarrow>
    fst (list_knowledge_bases_v2 w self2 t) = Inr kbs2 \<longrightarrow>
      (\<exists>ev. snd (delete_all_knowledge_bases_v2 w self2 confirm batch_size t) = t @ ev \<and>
         (((kbs2 = [] \<or> Print ''Operation cancelled.'' [] \<in> set ev \<and> \<not> dry_run self2 \<and> \<not> confirm
               \<and> (\<exists>t'. user_input w t' \<noteq> Inr ''DELETE''))
           \<and> filter summary_line ev = [])
          \<or> (\<exists>s f. filter summary_line ev
                      = [Print ''  Successful: {}'' [N s], Print ''  Failed: {}'' [N f]]
                 \<and> s + f = int (length kbs2) \<and> 0 \<le> s \<and> 0 \<le> f))))"
proof (intro conjI impI)
  assume a: "fst (delete_all_knowledge_bases w self confirm t) = Inr ()"
    "fst (list_knowledge_bases w self t) = Inr kbs"
  then have "delete_all_knowledge_bases w self confirm t
      = (Inr (), snd (delete_all_knowledge_bases w self confirm t))"
    "list_knowledge_bases w self t = (Inr kbs, snd (list_knowledge_bases w self t))"
    by (metis prod.collapse)+
  from delete_all_knowledge_bases_report[OF this]
  show "\<exists>ev. snd (delete_all_knowledge_bases w self confirm t) = t @ ev \<and>
         (((kbs = [] \<or> Print ''Operation cancelled.'' [] \<in> set ev \<and> \<not> dry_run self \<and> \<not> confirm
               \<and> (\<exists>t'. user_input w t' \<noteq> Inr ''DELETE''))
           \<and> filter summary_line ev = [])
          \<or> (\<exists>s f. filter summary_line ev
                      = [Print ''  Successful: {}'' [N s], Print ''  Failed: {}'' [N f]]
                 \<and> s + f = int (length kbs) \<and> 0 \<le> s \<and> 0 \<le> f))" .
next
  assume a: "fst (delete_all_knowledge_bases_v2 w self2 confirm batch_size t) = Inr ()"
    "fst (list_knowledge_bases_v2 w self2 t) = Inr kbs2"
  then have "delete_all_knowledge_bases_v2 w self2 confirm batch_size t
      = (Inr (), snd (delete_all_knowledge_bases_v2 w self2 confirm batch_size t))"
    "list_knowledge_bases_v2 w self2 t = (Inr kbs2, snd (list_knowledge_bases_v2 w self2 t))"
    by (metis prod.collapse)+
  from delete_all_knowledge_bases_v2_report[OF this]
  obtain ev where ev: "snd (delete_all_knowledge_bases_v2 w self2 confirm batch_size t) = t @ ev"
    and c: "((kbs2 = [] \<or> Print ''Operation cancelled.'' [] \<in> set ev \<and> \<not> dry_run self2 \<and> \<not> confirm
            \<and> (\<exists>t'. user_input w t' \<noteq> Inr ''DELETE''))
        \<and> filter reporting ev = [])
       \<or> (0 < batch_size \<and> (\<exists>s f. filter reporting ev
                  = concat (map (group_events kbs2 (nat batch_size))
                              [0..<ceil_div (length kbs2) (nat batch_size)])
                    @ [Print ''  Successful: {}'' [N s], Print ''  Failed: {}'' [N f]]
              \<and> s + f = int (length kbs2) \<and> 0 \<le> s \<and> 0 \<le> f))"
    by blast
  from c have "((kbs2 = [] \<or> Print ''Operation cancelled.'' [] \<in> set ev \<and> \<not> dry_run self2 \<and> \<not> confirm
               \<and> (\<exists>t'. user_input w t' \<noteq> Inr ''DELETE''))
           \<and> filter summary_line ev = [])
          \<or> (\<exists>s f. filter summary_line ev
                      = [Print ''  Successful: {}'' [N s], Print ''  Failed: {}'' [N f]]
                 \<and> s + f = int (length kbs2) \<and> 0 \<le> s \<and> 0 \<le> f)"
  proof (elim disjE conjE exE)
    fix s f
    assume "filter reporting ev
        = concat (map (group_events kbs2 (nat batch_size))
                              [0..<ceil_div (length kbs2) (nat batch_size)])
                    @ [Print ''  Successful: {}'' [N s], Print ''  Failed: {}'' [N f]]"
      and sf: "s + f = int (length kbs2)" "0 \<le> s" "0 \<le> f"
    then have "filter summary_line (filter reporting ev)
        = [Print ''  Successful: {}'' [N s], Print ''  Failed: {}'' [N f]]"
      by simp
    with sf show ?thesis unfolding filter_summary_reporting by blast
  next
    assume "filter reporting ev = []" "kbs2 = []"
    then have "filter summary_line (filter reporting ev) = []" by simp
    with \<open>kbs2 = []\<close> show ?thesis unfolding filter_summary_reporting by blast
  next
    fix t'
    assume "filter reporting ev = []" 
      and d: "Print ''Operation cancelled.'' [] \<in> set ev" "\<not> dry_run self2" "\<not> confirm"
        "user_input w t' \<noteq> Inr ''DELETE''"
    then have "filter summary_line (filter reporting ev) = []" by simp
    with d show ?thesis unfolding filter_summary_reporting by blast
  qed
  with ev show "\<exists>ev. snd (delete_all_knowledge_bases_v2 w self2 confirm batch_size t) = t @ ev \<and>
         (((kbs2 = [] \<or> Print ''Operation cancelled.'' [] \<in> set ev \<and> \<not> dry_run self2 \<and> \<not> confirm
               \<and> (\<exists>t'. user_input w t' \<noteq> Inr ''DELETE''))
           \<and> filter summary_line ev = [])
          \<or> (\<exists>s f. filter summary_line ev
                      = [Print ''  Successful: {}'' [N s], Print ''  Failed: {}'' [N f]]
                 \<and> s + f = int (length kbs2) \<and> 0 \<le> s \<and> 0 \<le> f))"
    by blast
qed

theorem summary_counts_add_up_witness:
  "fst (delete_all_knowledge_bases (calm ''DELETE'') (cleaner_v1 False) True []) = Inr ()
   \<and> (\<exists>ev. snd (delete_all_knowledge_bases (calm ''DELETE'') (cleaner_v1 False) True []) = ev
         \<and> (\<exists>s f. filter summary_line ev
                      = [Print ''  Successful: {}'' [N s], Print ''  Failed: {}'' [N f]]
                \<and> s + f = 2 \<and> 0 \<le> s \<and> 0 \<le> f))
   \<and> fst (delete_all_knowledge_bases_v2 (calm ''DELETE'') (cleaner_v2 False) True 1 []) = Inr ()
   \<and> (\<exists>ev. snd (delete_all_knowledge_bases_v2 (calm ''DELETE'') (cleaner_v2 False) True 1 []) = ev
         \<and> (\<exists>s f. filter summary_line ev
                      = [Print ''  Successful: {}'' [N s], Print ''  Failed: {}'' [N f]]
                \<and> s + f = 2 \<and> 0 \<le> s \<and> 0 \<le> f))"
proof -
  have r1: "fst (delete_all_knowledge_bases (calm ''DELETE'') (cleaner_v1 False) True []) = Inr ()"
    by code_simp
  have l1: "fst (list_knowledge_bases (calm ''DELETE'') (cleaner_v1 False) []) = Inr
      [\<lparr>kb_id = ''KB1'', kb_name = ''first'', kb_status = ''ACTIVE''\<rparr>,
       \<lparr>kb_id = ''KB2'', kb_name = ''second'', kb_status = ''ACTIVE''\<rparr>]"
    by code_simp
  have r2: "fst (delete_all_knowledge_bases_v2 (calm ''DELETE'') (cleaner_v2 False) True 1 []) = Inr ()"
    by code_simp
  have l2: "fst (list_knowledge_bases_v2 (calm ''DELETE'') (cleaner_v2 False) []) = Inr
      [\<lparr>kb_id = ''KB1'', kb_name = ''first'', kb_status = ''ACTIVE''\<rparr>,
       \<lparr>kb_id = ''KB2'', kb_name = ''second'', kb_status = ''ACTIVE''\<rparr>]"
    by code_simp
  show ?thesis
    using summary_counts_add_up
      [of "calm ''DELETE''" "cleaner_v1 False" True "[]"
        "[\<lparr>kb_id = ''KB1'', kb_name = ''first'', kb_status = ''ACTIVE''\<rparr>,
          \<lparr>kb_id = ''KB2'', kb_name = ''second'', kb_status = ''ACTIVE''\<rparr>]"
        "cleaner_v2 False" 1
        "[\<lparr>kb_id = ''KB1'', kb_name = ''first'', kb_status = ''ACTIVE''\<rparr>,
          \<lparr>kb_id = ''KB2'', kb_name = ''second'', kb_status = ''ACTIVE''\<rparr>]"]
      r1 l1 r2 l2
    by simp
qed


section \<open>Batches\<close>

lemma group_bounds:
  assumes "0 < B" "j < ceil_div (length xs) B"
  shows "group xs B j \<noteq> []" "length (group xs B j) \<le> B"
  using assms by (simp_all add: group_def ceil_div_less_iff)

text \<open>
  C6. With a batch size \<open>B > 0\<close>, a confirmed run of version 2 that returns normally over
  \<open>T\<close> enumerated knowledge bases shows exactly \<open>ceil(T/B)\<close> groups in order: for each
  group its header, the lines of its items and, unless it is the last group, the delay
  of ten seconds; no other header, item line or such delay occurs. The groups are not
  empty, have at most \<open>B\<close> items, and together are the enumerated list.
\<close>

theorem batches_and_delays:
  "0 < B \<longrightarrow> fst (list_knowledge_bases_v2 w self t) = Inr kbs \<longrightarrow>
   (dry_run self \<or> confirm \<or> (\<forall>t'. user_input w t' = Inr ''DELETE'')) \<longrightarrow>
   fst (delete_all_knowledge_bases_v2 w self confirm (int B) t) = Inr () \<longrightarrow>
     (\<exists>ev. snd (delete_all_knowledge_bases_v2 w self confirm (int B) t) = t @ ev
        \<and> filter batch_event ev
            = concat (map (group_events kbs B) [0..<ceil_div (length kbs) B]))
     \<and> (\<forall>j<ceil_div (length kbs) B. group kbs B j \<noteq> [] \<and> length (group kbs B j) \<le> B)
     \<and> concat (map (group kbs B) [0..<ceil_div (length kbs) B]) = kbs"
proof (intro impI conjI)
  assume B: "0 < B" and ls: "fst (list_knowledge_bases_v2 w self t) = Inr kbs"
    and conf: "dry_run self \<or> confirm \<or> (\<forall>t'. user_input w t' = Inr ''DELETE'')"
    and run: "fst (delete_all_knowledge_bases_v2 w self confirm (int B) t) = Inr ()"
  show "\<forall>j<ceil_div (length kbs) B. group kbs B j \<noteq> [] \<and> length (group kbs B j) \<le> B"
    using group_bounds[OF B] by blast
  show "concat (map (group kbs B) [0..<ceil_div (length kbs) B]) = kbs"
    by (rule groups_cover[OF B])
  from run ls have "delete_all_knowledge_bases_v2 w self confirm (int B) t
      = (Inr (), snd (delete_all_knowledge_bases_v2 w self confirm (int B) t))"
    "list_knowledge_bases_v2 w self t = (Inr kbs, snd (list_knowledge_bases_v2 w self t))"
    by (metis prod.collapse)+
  from delete_all_knowledge_bases_v2_report[OF this] conf
  obtain ev where ev: "snd (delete_all_knowledge_bases_v2 w self confirm (int B) t) = t @ ev"
    and c: "(kbs = [] \<and> filter reporting ev = [])
       \<or> (\<exists>s f. filter reporting ev
                  = concat (map (group_events kbs B) [0..<ceil_div (length kbs) B])
                    @ [Print ''  Successful: {}'' [N s], Print ''  Failed: {}'' [N f]])"
    by auto
  from c have "filter batch_event (filter reporting ev)
      = concat (map (group_events kbs B) [0..<ceil_div (length kbs) B])"
  proof (elim disjE conjE exE)
    assume a: "kbs = []" "filter reporting ev = []"
    have "ceil_div (length kbs) B = 0" using a(1) B by (simp add: ceil_div_def)
    then show ?thesis unfolding a(2) by simp
  next
    fix s f
    assume a: "filter reporting ev
        = concat (map (group_events kbs B) [0..<ceil_div (length kbs) B])
          @ [Print ''  Successful: {}'' [N s], Print ''  Failed: {}'' [N f]]"
    show ?thesis unfolding a by simp
  qed
  with ev show "\<exists>ev. snd (delete_all_knowledge_bases_v2 w self confirm (int B) t) = t @ ev
        \<and> filter batch_event ev
            = concat (map (group_events kbs B) [0..<ceil_div (length kbs) B])"
    unfolding filter_batch_reporting by blast
qed

theorem batches_and_delays_witness:
  "(0::nat) < 1
   \<and> fst (list_knowledge_bases_v2 (calm ''DELETE'') (cleaner_v2 False) []) = Inr
      [\<lparr>kb_id = ''KB1'', kb_name = ''first'', kb_status = ''ACTIVE''\<rparr>,
       \<lparr>kb_id = ''KB2'', kb_name = ''second'', kb_status = ''ACTIVE''\<rparr>]
   \<and> fst (delete_all_knowledge_bases_v2 (calm ''DELETE'') (cleaner_v2 False) True (int 1) []) = Inr ()
   \<and> filter batch_event
        (snd (delete_all_knowledge_bases_v2 (calm ''DELETE'') (cleaner_v2 False) True (int 1) []))
      = [Print ''Processing batch {} ({}-{} of {})'' [N 1, N 1, N 1, N 2],
         Print ''[{}/{}] Processing: {}'' [N 1, N 2, S ''first''],
         Print ''    Waiting 10 seconds before next batch...'' [],
         Sleep 10000,
         Print ''Processing batch {} ({}-{} of {})'' [N 2, N 2, N 2, N 2],
         Print ''[{}/{}] Processing: {}'' [N 2, N 2, S ''second'']]"
proof -
  have l: "fst (list_knowledge_bases_v2 (calm ''DELETE'') (cleaner_v2 False) []) = Inr
      [\<lparr>kb_id = ''KB1'', kb_name = ''first'', kb_status = ''ACTIVE''\<rparr>,
       \<lparr>kb_id = ''KB2'', kb_name = ''second'', kb_status = ''ACTIVE''\<rparr>]"
    by code_simp
  have r: "fst (delete_all_knowledge_bases_v2 (calm ''DELETE'') (cleaner_v2 False) True (int 1) [])
      = Inr ()"
    by code_simp
  have e: "filter batch_event
        (snd (delete_all_knowledge_bases_v2 (calm ''DELETE'') (cleaner_v2 False) True (int 1) []))
      = concat (map (group_events
          [\<lparr>kb_id = ''KB1'', kb_name = ''first'', kb_status = ''ACTIVE''\<rparr>,
           \<lparr>kb_id = ''KB2'', kb_name = ''second'', kb_status = ''ACTIVE''\<rparr>] 1)
          [0..<ceil_div (length
            [\<lparr>kb_id = ''KB1'', kb_name = ''first'', kb_status = ''ACTIVE''\<rparr>,
             \<lparr>kb_id = ''KB2'', kb_name = ''second'', kb_status = ''ACTIVE''\<rparr>]) 1])"
    using batches_and_delays
      [of 1 "calm ''DELETE''" "cleaner_v2 False" "[]"
        "[\<lparr>kb_id = ''KB1'', kb_name = ''first'', kb_status = ''ACTIVE''\<rparr>,
          \<lparr>kb_id = ''KB2'', kb_name = ''second'', kb_status = ''ACTIVE''\<rparr>]" True]
      l r
    by simp
  have g: "concat (map (group_events
          [\<lparr>kb_id = ''KB1'', kb_name = ''first'', kb_status = ''ACTIVE''\<rparr>,
           \<lparr>kb_id = ''KB2'', kb_name = ''second'', kb_status = ''ACTIVE''\<rparr>] 1)
          [0..<ceil_div (length
            [\<lparr>kb_id = ''KB1'', kb_name = ''first'', kb_status = ''ACTIVE''\<rparr>,
             \<lparr>kb_id = ''KB2'', kb_name = ''second'', kb_status = ''ACTIVE''\<rparr>]) 1])
     = [Print ''Processing batch {} ({}-{} of {})'' [N 1, N 1, N 1, N 2],
         Print ''[{}/{}] Processing: {}'' [N 1, N 2, S ''first''],
         Print ''    Waiting 10 seconds before next batch...'' [],
         Sleep 10000,
         Print ''Processing batch {} ({}-{} of {})'' [N 2, N 2, N 2, N 2],
         Print ''[{}/{}] Processing: {}'' [N 2, N 2, S ''second'']]"
    by code_simp
  show ?thesis
    unfolding e g using l r by simp
qed


section \<open>The success rate\<close>

lemma negative_batch_size_divides_by_zero:
  assumes "batch_size < 0" "fst (list_knowledge_bases_v2 w self t) = Inr kbs" "kbs \<noteq> []"
    "dry_run self \<or> confirm"
  shows "fst (delete_all_knowledge_bases_v2 w self confirm batch_size t) = Inl ZeroDivisionError"
proof -
  obtain t1 where "list_knowledge_bases_v2 w self t = (Inr kbs, t1)"
    using assms(2) by (metis prod.collapse)
  with assms py_range_negative[OF assms(1), of "length kbs"] show ?thesis
    by (auto simp: delete_all_knowledge_bases_v2_def delete_all_confirmed_v2_def final_summary_def
        Let_def)
qed

text \<open>
  C10. The division of the success rate does divide by zero: with a negative batch size
  (the command line accepts \<open>--batch-size -1\<close>) the range of batch starts is empty, no
  knowledge base is processed, both counters stay zero and the summary raises
  \<open>ZeroDivisionError\<close> after its first three lines.
\<close>

theorem success_rate_divides_by_zero:
  "delete_all_knowledge_bases_v2 (calm ''DELETE'') (cleaner_v2 True) False (- 1) []
   = (Inl ZeroDivisionError,
      [Print ''Listing Knowledge Bases in region {}...'' [S ''us-east-1''],
       Call ListKnowledgeBases,
       Print ''Found {} Knowledge Bases'' [N 2],
       Print ''  {}. {} (ID: {}) - Status: {}'' [N 1, S ''first'', S ''KB1'', S ''ACTIVE''],
       Print ''  {}. {} (ID: {}) - Status: {}'' [N 2, S ''second'', S ''KB2'', S ''ACTIVE''],
       Print ''Starting deletion of {} Knowledge Bases...'' [N 2],
       Print ''Processing in batches of {} to avoid overwhelming the service...'' [N (- 1)],
       Print ''Final Deletion Summary:'' [],
       Print ''  Successful: {}'' [N 0],
       Print ''  Failed: {}'' [N 0]])"
  by code_simp


section \<open>Polling loops\<close>

text \<open>
  C7. Not every polling loop ends. \<open>wait_for_kb_active\<close> has no counter and no timeout:
  with a status that never becomes \<open>ACTIVE\<close> or \<open>FAILED\<close> it never returns. The loop of
  \<open>enable_code_interpreter\<close> has none either and never returns when the state never
  becomes \<open>ENABLED\<close>. (\<open>wait_for_agent_status\<close>, next to them, is bounded by its
  \<open>max_retries\<close>.)
\<close>

theorem polling_loops_never_return:
  "wait_for_kb_active stuck ''KB1'' [] = None
   \<and> wait_for_action_group stuck ''AGENT'' ''AG1'' ''UserInput'' [] = None"
proof -
  have "wait_for_kb_active stuck ''KB1'' [] \<noteq> Some r" for r
    unfolding wait_for_kb_active_def using wait_for_kb_active_loop_stuck by blast
  moreover have "wait_for_action_group stuck ''AGENT'' ''AG1'' ''UserInput'' [] \<noteq> Some r" for r
    unfolding wait_for_action_group_def using wait_for_action_group_loop_stuck[of stuck]
    by fastforce
  ultimately show ?thesis by (meson not_Some_eq)
qed


section \<open>Failures at start-up\<close>

lemma page_requests_per_resource [simp]:
  "filter per_resource (page_requests ListKnowledgeBases r) = []"
  by (simp add: page_requests_def)

text \<open>
  C8, as the code has it. In version 2 a \<open>NoCredentialsError\<close> or a \<open>ClientError\<close>,
  raised when the client is created or by the listing call that tests the connection,
  is printed as a diagnostic and the process exits with status 1, before any call for a
  resource. Version 1 does so for a \<open>NoCredentialsError\<close> raised when the client is
  created; it makes no test call, and a \<open>ClientError\<close> of its listing is printed as a
  diagnostic, after which the run ends normally, without any call for a resource.
\<close>

theorem startup_failures:
  "(((\<forall>t'. boto3_client w t' = Some e)
       \<or> (\<forall>t'. boto3_client w t' = None) \<and> (\<forall>t'. api_list_knowledge_bases w t' = Some e)) \<longrightarrow>
    (e = NoCredentialsError \<or> is_ClientError e) \<longrightarrow>
      process_status (fst (main_v2 w a2 t)) = ExitCode 1
      \<and> (\<exists>ev. snd (main_v2 w a2 t) = t @ ev \<and> filter per_resource ev = []
            \<and> Call ListKnowledgeBases \<notin> set ev
            \<and> (Print ''AWS credentials not found. Please configure your AWS credentials.'' []
                  \<in> set ev
                \<or> Print ''AWS client error: {}'' [E e] \<in> set ev)))
   \<and> ((\<forall>t'. boto3_client w t' = Some NoCredentialsError) \<longrightarrow> \<not> arg_list_regions a \<longrightarrow>
      process_status (fst (main w a t)) = ExitCode 1
      \<and> (\<exists>ev. snd (main w a t) = t @ ev \<and> filter per_resource ev = []
            \<and> Call ListKnowledgeBases \<notin> set ev
            \<and> Print ''AWS credentials not found. Please configure your AWS credentials.'' []
                  \<in> set ev))
   \<and> ((\<forall>t'. boto3_client w t' = None) \<longrightarrow> (\<forall>t'. snd (paginate_knowledge_bases w t') = Some e) \<longrightarrow>
      is_ClientError e \<longrightarrow> \<not> arg_list_regions a \<longrightarrow>
      process_status (fst (main w a t)) = ExitCode 0
      \<and> (\<exists>ev. snd (main w a t) = t @ ev \<and> filter per_resource ev = []
            \<and> Print ''Error listing knowledge bases: {}'' [E e] \<in> set ev))"
  by (auto simp: main_v2_def main_def init_v2_def init_def init_failed_def Let_def
      delete_all_knowledge_bases_def list_knowledge_bases_def)

theorem startup_failures_witness:
  "(\<forall>t'. boto3_client denied t' = None) \<and> (\<forall>t'. api_list_knowledge_bases denied t' = Some access_denied)
   \<and> is_ClientError access_denied
   \<and> process_status (fst (main_v2 denied plain_args_v2 [])) = ExitCode 1
   \<and> (\<forall>t'. boto3_client no_credentials t' = Some NoCredentialsError) \<and> \<not> arg_list_regions plain_args
   \<and> process_status (fst (main no_credentials plain_args [])) = ExitCode 1
   \<and> (\<forall>t'. snd (paginate_knowledge_bases denied t') = Some access_denied)
   \<and> process_status (fst (main denied plain_args [])) = ExitCode 0"
proof -
  have 1: "(\<forall>t'. boto3_client denied t' = None)"
    "(\<forall>t'. api_list_knowledge_bases denied t' = Some access_denied)"
    "is_ClientError access_denied"
    "(\<forall>t'. boto3_client no_credentials t' = Some NoCredentialsError)"
    "\<not> arg_list_regions plain_args"
    "(\<forall>t'. snd (paginate_knowledge_bases denied t') = Some access_denied)"
    by (simp_all add: denied_def no_credentials_def calm_def access_denied_def plain_args_def)
  show ?thesis
    using startup_failures[of denied access_denied plain_args_v2 "[]" plain_args]
      startup_failures[of no_credentials access_denied plain_args_v2 "[]" plain_args] 1
    by simp
qed

text \<open>
  C8 as stated fails on version 1: a listing denied for lack of permissions is no fatal
  exit. The error is printed, the list is taken to be empty and the run ends normally,
  with exit status 0.
\<close>

theorem startup_failure_counterexample:
  "main denied plain_args []
   = (Inr (),
      [Print ''AWS Bedrock Knowledge Base Cleaner'' [],
       Print ''=================================================='' [],
       Call CreateClient,
       Print ''Listing Knowledge Bases in region {}...'' [S ''us-east-1''],
       Call ListKnowledgeBases,
       Print ''Error listing knowledge bases: {}'' [E access_denied],
       Print ''No Knowledge Bases found to delete.'' []])
   \<and> process_status (fst (main denied plain_args [])) = ExitCode 0"
  by code_simp


section \<open>Exit status\<close>

text \<open>
  C9, as the code has it. Once the cleaner is constructed, version 2 returns (exit
  status 0) when \<open>delete_all_knowledge_bases\<close> returns, and exits with status 1 when that
  raises \<open>KeyboardInterrupt\<close> or any \<open>Exception\<close>. Version 1 has no handler: it returns
  (exit status 0) when \<open>delete_all_knowledge_bases\<close> returns and lets every exception
  escape; the interpreter then gives exit status 1 for an \<open>Exception\<close>, but a
  \<open>KeyboardInterrupt\<close> ends the process by the interrupt signal.
\<close>

theorem exit_status:
  "(init_v2 w (arg2_region a2) (arg2_dry_run a2) (arg2_debug a2)
        (if arg2_debug a2
         then t @ [Print ''AWS Bedrock Knowledge Base Cleaner v2 (Enhanced)'' [],
                   Print (replicate 55 (CHR ''='')) [], Print ''Debug mode enabled'' []]
         else t @ [Print ''AWS Bedrock Knowledge Base Cleaner v2 (Enhanced)'' [],
                   Print (replicate 55 (CHR ''='')) []]) = (Inr self2, t2) \<longrightarrow>
      process_status (fst (main_v2 w a2 t)) =
        (case fst (delete_all_knowledge_bases_v2 w self2 (arg2_confirm a2) (arg2_batch_size a2) t2) of
           Inr u \<Rightarrow> ExitCode 0
         | Inl e \<Rightarrow> if e = KeyboardInterrupt \<or> is_Exception e then ExitCode 1
                    else process_status (Inl e)))
   \<and> (\<not> arg_list_regions a \<longrightarrow>
      init w (arg_region a) (arg_dry_run a)
        (t @ [Print ''AWS Bedrock Knowledge Base Cleaner'' [], Print (replicate 50 (CHR ''='')) []])
        = (Inr self, t1) \<longrightarrow>
      process_status (fst (main w a t)) =
        (case fst (delete_all_knowledge_bases w self (arg_confirm a) t1) of
           Inr u \<Rightarrow> ExitCode 0
         | Inl e \<Rightarrow> if e = KeyboardInterrupt then KilledBySIGINT
                    else if is_Exception e then ExitCode 1 else process_status (Inl e)))"
proof (intro conjI impI)
  assume i: "init_v2 w (arg2_region a2) (arg2_dry_run a2) (arg2_debug a2)
        (if arg2_debug a2
         then t @ [Print ''AWS Bedrock Knowledge Base Cleaner v2 (Enhanced)'' [],
                   Print (replicate 55 (CHR ''='')) [], Print ''Debug mode enabled'' []]
         else t @ [Print ''AWS Bedrock Knowledge Base Cleaner v2 (Enhanced)'' [],
                   Print (replicate 55 (CHR ''='')) []]) = (Inr self2, t2)"
  obtain r t3 where d: "delete_all_knowledge_bases_v2 w self2 (arg2_confirm a2) (arg2_batch_size a2) t2
      = (r, t3)"
    by (cases "delete_all_knowledge_bases_v2 w self2 (arg2_confirm a2) (arg2_batch_size a2) t2")
  show "process_status (fst (main_v2 w a2 t)) =
        (case fst (delete_all_knowledge_bases_v2 w self2 (arg2_confirm a2) (arg2_batch_size a2) t2) of
           Inr u \<Rightarrow> ExitCode 0
         | Inl e \<Rightarrow> if e = KeyboardInterrupt \<or> is_Exception e then ExitCode 1
                    else process_status (Inl e))"
    using i d by (cases "arg2_debug a2") (auto simp: main_v2_def Let_def split: sum.splits)
next
  assume i: "\<not> arg_list_regions a" "init w (arg_region a) (arg_dry_run a)
        (t @ [Print ''AWS Bedrock Knowledge Base Cleaner'' [], Print (replicate 50 (CHR ''='')) []])
        = (Inr self, t1)"
  obtain r t3 where d: "delete_all_knowledge_bases w self (arg_confirm a) t1 = (r, t3)"
    by (cases "delete_all_knowledge_bases w self (arg_confirm a) t1")
  show "process_status (fst (main w a t)) =
        (case fst (delete_all_knowledge_bases w self (arg_confirm a) t1) of
           Inr u \<Rightarrow> ExitCode 0
         | Inl e \<Rightarrow> if e = KeyboardInterrupt then KilledBySIGINT
                    else if is_Exception e then ExitCode 1 else process_status (Inl e))"
  proof (cases r)
    case (Inl e)
    then show ?thesis using i d by (cases e) (simp_all add: main_def)
  next
    case (Inr u)
    then show ?thesis using i d by (simp add: main_def)
  qed
qed


theorem exit_status_witness:
  "init_v2 interrupted (arg2_region plain_args_v2) (arg2_dry_run plain_args_v2)
      (arg2_debug plain_args_v2)
      (if arg2_debug plain_args_v2
       then [] @ [Print ''AWS Bedrock Knowledge Base Cleaner v2 (Enhanced)'' [],
                  Print (replicate 55 (CHR ''='')) [], Print ''Debug mode enabled'' []]
       else [] @ [Print ''AWS Bedrock Knowledge Base Cleaner v2 (Enhanced)'' [],
                  Print (replicate 55 (CHR ''='')) []])
     = (Inr (cleaner_v2 False),
        [Print ''AWS Bedrock Knowledge Base Cleaner v2 (Enhanced)'' [],
         Print (replicate 55 (CHR ''='')) [], Call CreateClient, Call ListKnowledgeBasesMax1])
   \<and> process_status (fst (main_v2 interrupted plain_args_v2 [])) = ExitCode 1
   \<and> \<not> arg_list_regions plain_args
   \<and> init (calm ''DELETE'') (arg_region plain_args) (arg_dry_run plain_args)
        ([] @ [Print ''AWS Bedrock Knowledge Base Cleaner'' [], Print (replicate 50 (CHR ''='')) []])
     = (Inr (cleaner_v1 False),
        [Print ''AWS Bedrock Knowledge Base Cleaner'' [], Print (replicate 50 (CHR ''='')) [],
         Call CreateClient])
   \<and> process_status (fst (main (calm ''DELETE'') plain_args [])) = ExitCode 0"
proof -
  have h2: "init_v2 interrupted (arg2_region plain_args_v2) (arg2_dry_run plain_args_v2)
      (arg2_debug plain_args_v2)
      (if arg2_debug plain_args_v2
       then [] @ [Print ''AWS Bedrock Knowledge Base Cleaner v2 (Enhanced)'' [],
                  Print (replicate 55 (CHR ''='')) [], Print ''Debug mode enabled'' []]
       else [] @ [Print ''AWS Bedrock Knowledge Base Cleaner v2 (Enhanced)'' [],
                  Print (replicate 55 (CHR ''='')) []])
     = (Inr (cleaner_v2 False),
        [Print ''AWS Bedrock Knowledge Base Cleaner v2 (Enhanced)'' [],
         Print (replicate 55 (CHR ''='')) [], Call CreateClient, Call ListKnowledgeBasesMax1])"
    by code_simp
  have d2: "fst (delete_all_knowledge_bases_v2 interrupted (cleaner_v2 False)
        (arg2_confirm plain_args_v2) (arg2_batch_size plain_args_v2)
        [Print ''AWS Bedrock Knowledge Base Cleaner v2 (Enhanced)'' [],
         Print (replicate 55 (CHR ''='')) [], Call CreateClient, Call ListKnowledgeBasesMax1])
      = Inl KeyboardInterrupt"
    by code_simp
  have h1: "\<not> arg_list_regions plain_args"
    "init (calm ''DELETE'') (arg_region plain_args) (arg_dry_run plain_args)
        ([] @ [Print ''AWS Bedrock Knowledge Base Cleaner'' [], Print (replicate 50 (CHR ''='')) []])
     = (Inr (cleaner_v1 False),
        [Print ''AWS Bedrock Knowledge Base Cleaner'' [], Print (replicate 50 (CHR ''='')) [],
         Call CreateClient])"
    by code_simp+
  have d1: "fst (delete_all_knowledge_bases (calm ''DELETE'') (cleaner_v1 False)
        (arg_confirm plain_args)
        [Print ''AWS Bedrock Knowledge Base Cleaner'' [], Print (replicate 50 (CHR ''='')) [],
         Call CreateClient])
      = Inr ()"
    by code_simp
  from exit_status[THEN conjunct1, rule_format, OF h2] d2
  have 2: "process_status (fst (main_v2 interrupted plain_args_v2 [])) = ExitCode 1"
    by simp
  from exit_status[THEN conjunct2, rule_format, OF h1] d1
  have 1: "process_status (fst (main (calm ''DELETE'') plain_args [])) = ExitCode 0"
    by simp
  from h2 2 h1 1 show ?thesis by (intro conjI)
qed

text \<open>
  C9 as stated fails on version 1: an interruption at the prompt is not caught, so the
  run ends with the \<open>KeyboardInterrupt\<close> escaping \<open>main\<close> and not with exit status 1.
\<close>

theorem exit_status_counterexample:
  "fst (main interrupted plain_args []) = Inl KeyboardInterrupt
   \<and> process_status (fst (main interrupted plain_args [])) = KilledBySIGINT
   \<and> process_status (fst (main interrupted plain_args [])) \<noteq> ExitCode 1"
  by code_simp


section \<open>Children before the parent\<close>

lemma vector_store_error_triggers:
  "sublist ''vector store'' (lower (err_message vector_store_error))"
  by code_simp

lemma is_ClientError_vector_store_error: "is_ClientError vector_store_error"
  by (simp add: vector_store_error_def)

lemma data_source_deletions_once:
  "data_source_deletions kb (replicate (length dss) (Suc 0)) dss
     = map (\<lambda>ds. Call (DeleteDataSource kb (ds_id ds))) dss"
  by (induction dss) (simp_all add: data_source_deletions_def)

text \<open>
  C1, as the code has it. With dry run off, let the enumeration of a knowledge base yield
  \<open>N\<close> data sources. Whenever its deletion returns, it has issued for each data source in
  turn at least one and at most three deletion calls (a call that fails is retried) and
  then at least one and at most \<open>max_retries\<close> deletion calls for the knowledge base;
  every deletion call for a data source precedes every deletion call for the knowledge
  base. When no deletion call fails, the deletion returns \<open>True\<close> after exactly \<open>N\<close>
  deletion calls for the data sources, one each in order, followed by exactly one
  deletion call for the knowledge base.
\<close>

theorem children_deleted_before_parent:
  "(\<not> dry_run self \<longrightarrow> 0 < m \<longrightarrow>
    fst (list_data_sources w kb (t @ [Print ''Deleting Knowledge Base: {} (ID: {})'' [S name, S kb]]))
      = Inr dss \<longrightarrow>
      (fst (delete_knowledge_base w self kb name m t) = Inr b \<longrightarrow>
         (\<exists>ev ns k. snd (delete_knowledge_base w self kb name m t) = t @ ev
            \<and> filter deletion ev
                = data_source_deletions kb ns dss @ replicate k (Call (DeleteKnowledgeBase kb))
            \<and> length ns = length dss \<and> (\<forall>n\<in>set ns. 1 \<le> n \<and> n \<le> 3) \<and> 1 \<le> k \<and> int k \<le> m))
      \<and> ((\<forall>t'. api_delete_data_source w t' = None) \<longrightarrow>
          (\<forall>t'. api_delete_knowledge_base w t' = None) \<longrightarrow>
            fst (delete_knowledge_base w self kb name m t) = Inr True
            \<and> (\<exists>ev. snd (delete_knowledge_base w self kb name m t) = t @ ev
                  \<and> filter deletion ev
                      = map (\<lambda>ds. Call (DeleteDataSource kb (ds_id ds))) dss
                        @ [Call (DeleteKnowledgeBase kb)])))
   \<and> (\<not> dry_run self2 \<longrightarrow> 0 < m \<longrightarrow>
    fst (list_data_sources_with_timeout w self2 kb
           (t @ [Print ''Deleting Knowledge Base: {} (ID: {})'' [S name, S kb]]))
      = Inr dss2 \<longrightarrow>
      (fst (delete_knowledge_base_with_timeout w self2 kb name m t) = Inr b \<longrightarrow>
         (\<exists>ev ns k. snd (delete_knowledge_base_with_timeout w self2 kb name m t) = t @ ev
            \<and> filter deletion ev
                = data_source_deletions kb ns dss2 @ replicate k (Call (DeleteKnowledgeBase kb))
            \<and> length ns = length dss2 \<and> (\<forall>n\<in>set ns. 1 \<le> n \<and> n \<le> 3) \<and> 1 \<le> k \<and> int k \<le> m))
      \<and> ((\<forall>t'. api_delete_data_source w t' = None) \<longrightarrow>
          (\<forall>t'. api_delete_knowledge_base w t' = None) \<longrightarrow>
            fst (delete_knowledge_base_with_timeout w self2 kb name m t) = Inr True
            \<and> (\<exists>ev. snd (delete_knowledge_base_with_timeout w self2 kb name m t) = t @ ev
                  \<and> filter deletion ev
                      = map (\<lambda>ds. Call (DeleteDataSource kb (ds_id ds))) dss2
                        @ [Call (DeleteKnowledgeBase kb)])))"
proof (intro conjI impI)
  let ?t0 = "t @ [Print ''Deleting Knowledge Base: {} (ID: {})'' [S name, S kb]]"
  assume dr: "\<not> dry_run self" and m: "0 < m" and "fst (list_data_sources w kb ?t0) = Inr dss"
  then obtain t1 where ls: "list_data_sources w kb ?t0 = (Inr dss, t1)"
    by (metis prod.collapse)
  {
    assume "fst (delete_knowledge_base w self kb name m t) = Inr b"
    then have run: "delete_knowledge_base w self kb name m t
        = (Inr b, snd (delete_knowledge_base w self kb name m t))"
      by (metis prod.collapse)
    from delete_knowledge_base_deletions[OF dr m ls run]
    show "\<exists>ev ns k. snd (delete_knowledge_base w self kb name m t) = t @ ev
            \<and> filter deletion ev
                = data_source_deletions kb ns dss @ replicate k (Call (DeleteKnowledgeBase kb))
            \<and> length ns = length dss \<and> (\<forall>n\<in>set ns. 1 \<le> n \<and> n \<le> 3) \<and> 1 \<le> k \<and> int k \<le> m"
      by blast
  }
  assume ok: "\<forall>t'. api_delete_data_source w t' = None" "\<forall>t'. api_delete_knowledge_base w t' = None"
  from delete_knowledge_base_returns[OF dr m ls ok]
  show r: "fst (delete_knowledge_base w self kb name m t) = Inr True" .
  then have run: "delete_knowledge_base w self kb name m t
        = (Inr True, snd (delete_knowledge_base w self kb name m t))"
    by (metis prod.collapse)
  from delete_knowledge_base_deletions[OF dr m ls run] ok
  show "\<exists>ev. snd (delete_knowledge_base w self kb name m t) = t @ ev
      \<and> filter deletion ev
          = map (\<lambda>ds. Call (DeleteDataSource kb (ds_id ds))) dss @ [Call (DeleteKnowledgeBase kb)]"
    by (auto simp: data_source_deletions_once)
next
  let ?t0 = "t @ [Print ''Deleting Knowledge Base: {} (ID: {})'' [S name, S kb]]"
  assume dr: "\<not> dry_run self2" and m: "0 < m"
    and "fst (list_data_sources_with_timeout w self2 kb ?t0) = Inr dss2"
  then obtain t1 where ls: "list_data_sources_with_timeout w self2 kb ?t0 = (Inr dss2, t1)"
    by (metis prod.collapse)
  {
    assume "fst (delete_knowledge_base_with_timeout w self2 kb name m t) = Inr b"
    then have run: "delete_knowledge_base_with_timeout w self2 kb name m t
        = (Inr b, snd (delete_knowledge_base_with_timeout w self2 kb name m t))"
      by (metis prod.collapse)
    from delete_knowledge_base_with_timeout_deletions[OF dr m ls run]
    show "\<exists>ev ns k. snd (delete_knowledge_base_with_timeout w self2 kb name m t) = t @ ev
            \<and> filter deletion ev
                = data_source_deletions kb ns dss2 @ replicate k (Call (DeleteKnowledgeBase kb))
            \<and> length ns = length dss2 \<and> (\<forall>n\<in>set ns. 1 \<le> n \<and> n \<le> 3) \<and> 1 \<le> k \<and> int k \<le> m"
      by blast
  }
  assume ok: "\<forall>t'. api_delete_data_source w t' = None" "\<forall>t'. api_delete_knowledge_base w t' = None"
  from delete_knowledge_base_with_timeout_returns[OF dr m ls ok]
  show r: "fst (delete_knowledge_base_with_timeout w self2 kb name m t) = Inr True" .
  then have run: "delete_knowledge_base_with_timeout w self2 kb name m t
        = (Inr True, snd (delete_knowledge_base_with_timeout w self2 kb name m t))"
    by (metis prod.collapse)
  from delete_knowledge_base_with_timeout_deletions[OF dr m ls run] ok
  show "\<exists>ev. snd (delete_knowledge_base_with_timeout w self2 kb name m t) = t @ ev
      \<and> filter deletion ev
          = map (\<lambda>ds. Call (DeleteDataSource kb (ds_id ds))) dss2 @ [Call (DeleteKnowledgeBase kb)]"
    by (auto simp: data_source_deletions_once)
qed

theorem children_deleted_before_parent_witness:
  "\<not> dry_run (cleaner_v1 False) \<and> (0::int) < 3
   \<and> fst (list_data_sources (calm ''DELETE'') ''KB1''
         ([] @ [Print ''Deleting Knowledge Base: {} (ID: {})'' [S ''first'', S ''KB1'']]))
      = Inr [\<lparr>ds_id = ''DS1'', ds_name = ''docs''\<rparr>]
   \<and> (\<forall>t'. api_delete_data_source (calm ''DELETE'') t' = None)
   \<and> (\<forall>t'. api_delete_knowledge_base (calm ''DELETE'') t' = None)
   \<and> fst (delete_knowledge_base (calm ''DELETE'') (cleaner_v1 False) ''KB1'' ''first'' 3 []) = Inr True
   \<and> (\<exists>ev. snd (delete_knowledge_base (calm ''DELETE'') (cleaner_v1 False) ''KB1'' ''first'' 3 []) = ev
         \<and> filter deletion ev
             = [Call (DeleteDataSource ''KB1'' ''DS1''), Call (DeleteKnowledgeBase ''KB1'')])
   \<and> \<not> dry_run (cleaner_v2 False)
   \<and> fst (list_data_sources_with_timeout (calm ''DELETE'') (cleaner_v2 False) ''KB1''
         ([] @ [Print ''Deleting Knowledge Base: {} (ID: {})'' [S ''first'', S ''KB1'']]))
      = Inr [\<lparr>ds_id = ''DS1'', ds_name = ''docs''\<rparr>]
   \<and> fst (delete_knowledge_base_with_timeout (calm ''DELETE'') (cleaner_v2 False) ''KB1'' ''first'' 3 [])
      = Inr True
   \<and> (\<exists>ev. snd (delete_knowledge_base_with_timeout (calm ''DELETE'') (cleaner_v2 False) ''KB1'' ''first'' 3 [])
           = ev
         \<and> filter deletion ev
             = [Call (DeleteDataSource ''KB1'' ''DS1''), Call (DeleteKnowledgeBase ''KB1'')])"
proof -
  have h: "\<not> dry_run (cleaner_v1 False)" "(0::int) < 3"
    "fst (list_data_sources (calm ''DELETE'') ''KB1''
         ([] @ [Print ''Deleting Knowledge Base: {} (ID: {})'' [S ''first'', S ''KB1'']]))
      = Inr [\<lparr>ds_id = ''DS1'', ds_name = ''docs''\<rparr>]"
    "\<forall>t'. api_delete_data_source (calm ''DELETE'') t' = None"
    "\<forall>t'. api_delete_knowledge_base (calm ''DELETE'') t' = None"
    "\<not> dry_run (cleaner_v2 False)"
    "fst (list_data_sources_with_timeout (calm ''DELETE'') (cleaner_v2 False) ''KB1''
         ([] @ [Print ''Deleting Knowledge Base: {} (ID: {})'' [S ''first'', S ''KB1'']]))
      = Inr [\<lparr>ds_id = ''DS1'', ds_name = ''docs''\<rparr>]"
    by (simp_all add: cleaner_v1_def cleaner_v2_def calm_def list_data_sources_def
        list_data_sources_with_timeout_def debug_print_def)
  note th = children_deleted_before_parent
      [of "cleaner_v1 False" 3 "calm ''DELETE''" "''KB1''" "[]" "''first''"
        "[\<lparr>ds_id = ''DS1'', ds_name = ''docs''\<rparr>]" True "cleaner_v2 False"
        "[\<lparr>ds_id = ''DS1'', ds_name = ''docs''\<rparr>]"]
  from th[THEN conjunct1, rule_format, OF h(1) h(2) h(3), THEN conjunct2, rule_format, OF h(4)[rule_format] h(5)[rule_format]]
  have v1: "fst (delete_knowledge_base (calm ''DELETE'') (cleaner_v1 False) ''KB1'' ''first'' 3 [])
      = Inr True"
    "\<exists>ev. snd (delete_knowledge_base (calm ''DELETE'') (cleaner_v1 False) ''KB1'' ''first'' 3 []) = ev
         \<and> filter deletion ev
             = [Call (DeleteDataSource ''KB1'' ''DS1''), Call (DeleteKnowledgeBase ''KB1'')]"
    by simp_all
  from th[THEN conjunct2, rule_format, OF h(6) h(2) h(7), THEN conjunct2, rule_format, OF h(4)[rule_format] h(5)[rule_format]]
  have v2: "fst (delete_knowledge_base_with_timeout (calm ''DELETE'') (cleaner_v2 False) ''KB1''
        ''first'' 3 []) = Inr True"
    "\<exists>ev. snd (delete_knowledge_base_with_timeout (calm ''DELETE'') (cleaner_v2 False) ''KB1''
              ''first'' 3 []) = ev
         \<and> filter deletion ev
             = [Call (DeleteDataSource ''KB1'' ''DS1''), Call (DeleteKnowledgeBase ''KB1'')]"
    by simp_all
  from h v1 v2 show ?thesis by (intro conjI)
qed

text \<open>
  C1 as stated fails when a deletion call is retried: with one data source enumerated,
  a vector store error on its first deletion call and a conflict on the first deletion
  call for the knowledge base, there are two deletion calls for the data source and two
  for the knowledge base.
\<close>

theorem children_deleted_before_parent_counterexample:
  "fst (list_data_sources flaky ''KB1''
      [Print ''Deleting Knowledge Base: {} (ID: {})'' [S ''first'', S ''KB1'']])
     = Inr [\<lparr>ds_id = ''DS1'', ds_name = ''docs''\<rparr>]
   \<and> fst (delete_knowledge_base flaky (cleaner_v1 False) ''KB1'' ''first'' 3 []) = Inr True
   \<and> filter deletion (snd (delete_knowledge_base flaky (cleaner_v1 False) ''KB1'' ''first'' 3 []))
     = [Call (DeleteDataSource ''KB1'' ''DS1''), Call (DeleteDataSource ''KB1'' ''DS1''),
        Call (DeleteKnowledgeBase ''KB1''), Call (DeleteKnowledgeBase ''KB1'')]"
  by (simp add: delete_knowledge_base_def list_data_sources_def page_requests_def
      delete_data_source_def update_data_source_deletion_policy_def
      flaky_def calm_def cleaner_v1_def vector_store_error_triggers upto.simps
      is_ClientError_vector_store_error conflict_def)


end
